theory Spec2Isabelle
  imports Complex_Main "HOL-Library.Word" "HOL-Library.Char_ord" "HOL-Library.List_Lexorder"
begin

section \<open>JavaScript values\<close>

text \<open>
  The DeProof generator (\<^verbatim>\<open>src/client/build/secure-proof.js\<close>) and the DeProof validator
  (\<^verbatim>\<open>secure-validator.js\<close>, the first document of \<^verbatim>\<open>src/unnamed/part_001\<close>) work on
  JSON-like values: tool parameters, the \<^verbatim>\<open>_deProof\<close> record and the object that is
  serialised for the digest.

  Conventions of the embedding.
  \<^item> A string is a \<^typ>\<open>string\<close>; a character stands for one code unit. Default
    \<^verbatim>\<open>Array.prototype.sort\<close> compares strings by code units, which is the
    lexicographic order of \<^typ>\<open>char list\<close>.
  \<^item> A \<open>jsval\<close> is a value as \<^verbatim>\<open>JSON.parse\<close> gives it, or \<^verbatim>\<open>undefined\<close>: what a request
    holds when it arrives. A number in it is an \<^typ>\<open>int\<close>, one of the integers a double
    holds (numbers with a fraction are not modelled); adding one to a number is
    \<open>plusOne\<close> below, which is exact up to \<open>2^53\<close> and rounds as doubles do beyond.
    \<^verbatim>\<open>NaN\<close> as the time of an invalid date is the value \<open>None\<close>.
  \<^item> An object is the list of its own properties in creation order; a JavaScript
    object has every key once. The validator reads fixed property names of a request
    (\<^verbatim>\<open>params\<close>, \<^verbatim>\<open>_deProof\<close> and the six fields), none of which
    \<^verbatim>\<open>Object.prototype\<close> has.
  \<^item> The nonce stores are objects used as dictionaries under keys the caller chooses.
    Reading a session from such an object goes through \<^verbatim>\<open>Object.prototype\<close>; this is
    modelled (\<open>dictGet\<close>, \<open>dictSet\<close> below). The outer object is keyed by signer
    addresses; a signer address that is itself the name of an inherited property is
    outside the model.
\<close>

datatype jsval =
    JUndefined
  | JNull
  | JBool bool
  | JNum int
  | JStr string
  | JArr "jsval list"
  | JObj "(string \<times> jsval) list"

datatype js_error = TypeError | LibraryError

text \<open>\<^verbatim>\<open>obj[key]\<close> on an object: the own property, or \<^verbatim>\<open>undefined\<close>.\<close>

definition objGet :: "(string \<times> jsval) list \<Rightarrow> string \<Rightarrow> jsval" where
  "objGet kvs key = (case map_of kvs key of None \<Rightarrow> JUndefined | Some v \<Rightarrow> v)"

text \<open>\<^verbatim>\<open>obj[key] = v\<close>: an existing property keeps its place, a new one is created last.\<close>

primrec objSet :: "(string \<times> jsval) list \<Rightarrow> string \<Rightarrow> jsval \<Rightarrow> (string \<times> jsval) list" where
  "objSet [] key v = [(key, v)]"
| "objSet (p # ps) key v = (if fst p = key then (key, v) # ps else p # objSet ps key v)"

text \<open>\<^verbatim>\<open>delete obj[key]\<close>.\<close>

definition objDelete :: "(string \<times> jsval) list \<Rightarrow> string \<Rightarrow> (string \<times> jsval) list" where
  "objDelete kvs key = filter (\<lambda>p. fst p \<noteq> key) kvs"

text \<open>
  \<^verbatim>\<open>acc[key] = v\<close> on an object made by \<^verbatim>\<open>{}\<close>, as \<^verbatim>\<open>sortObjectKeys\<close> does it. Under the
  key \<^verbatim>\<open>__proto__\<close> the assignment reaches the setter of \<^verbatim>\<open>Object.prototype\<close>, which sets
  the prototype or does nothing and creates no property. (\<open>objSet\<close> is the definition
  of a property, which object spread uses.)
\<close>

definition objAssign :: "(string \<times> jsval) list \<Rightarrow> string \<Rightarrow> jsval \<Rightarrow> (string \<times> jsval) list" where
  "objAssign kvs key v = (if key = ''__proto__'' then kvs else objSet kvs key v)"

text \<open>
  Property enumeration order (\<^verbatim>\<open>Object.keys\<close>, \<^verbatim>\<open>JSON.stringify\<close>, object spread):
  array-index keys first, in ascending numeric order, then the other keys in creation
  order. An array index is the canonical decimal form of an integer below \<open>2^32 - 1\<close>.
\<close>

definition isDigit :: "char \<Rightarrow> bool" where
  "isDigit c = (c \<in> set ''0123456789'')"

definition decimalValue :: "string \<Rightarrow> int" where
  "decimalValue s = foldl (\<lambda>n c. 10 * n + (of_char c - 48)) 0 s"

definition isArrayIndex :: "string \<Rightarrow> bool" where
  "isArrayIndex key =
     (key \<noteq> [] \<and> list_all isDigit key \<and> (if hd key = CHR ''0'' then key = ''0'' else True)
      \<and> decimalValue key < 4294967295)"

definition ownPropertyKeys :: "(string \<times> jsval) list \<Rightarrow> string list" where
  "ownPropertyKeys kvs =
     sort_key decimalValue (filter isArrayIndex (map fst kvs))
     @ filter (\<lambda>key. \<not> isArrayIndex key) (map fst kvs)"

text \<open>\<^verbatim>\<open>{ ...obj }\<close>: a copy whose properties are created in enumeration order.\<close>

definition objSpread :: "(string \<times> jsval) list \<Rightarrow> (string \<times> jsval) list" where
  "objSpread kvs = foldl (\<lambda>acc key. objSet acc key (objGet kvs key)) [] (ownPropertyKeys kvs)"

text \<open>Truthiness, as \<^verbatim>\<open>!v\<close> tests it.\<close>

fun truthy :: "jsval \<Rightarrow> bool" where
  "truthy JUndefined = False"
| "truthy JNull = False"
| "truthy (JBool b) = b"
| "truthy (JNum n) = (n \<noteq> 0)"
| "truthy (JStr s) = (s \<noteq> [])"
| "truthy (JArr xs) = True"
| "truthy (JObj kvs) = True"

text \<open>
  \<^verbatim>\<open>v.key\<close> for the property names the validator reads (\<^verbatim>\<open>_deProof\<close> and the six proof
  fields): a \<^verbatim>\<open>TypeError\<close> on \<^verbatim>\<open>undefined\<close> and \<^verbatim>\<open>null\<close>, the own property of an
  object, \<^verbatim>\<open>undefined\<close> on every other value.
\<close>

fun propOf :: "jsval \<Rightarrow> string \<Rightarrow> jsval" where
  "propOf (JObj kvs) key = objGet kvs key"
| "propOf v key = JUndefined"

definition getProp :: "jsval \<Rightarrow> string \<Rightarrow> js_error + jsval" where
  "getProp v key = (if v = JUndefined \<or> v = JNull then Inl TypeError else Inr (propOf v key))"

text \<open>
  \<^verbatim>\<open>v.substring(...)\<close> and \<^verbatim>\<open>v.startsWith(...)\<close> exist on strings only; on any other value
  the call throws a \<^verbatim>\<open>TypeError\<close>. \<open>asString\<close> is the receiver when the call goes
  through.
\<close>

fun asString :: "jsval \<Rightarrow> string option" where
  "asString (JStr s) = Some s"
| "asString v = None"

text \<open>
  Conversion to a primitive, as a template literal and \<^verbatim>\<open>new Date(v)\<close> apply it. It throws
  a \<^verbatim>\<open>TypeError\<close> on an object with an own property \<^verbatim>\<open>toString\<close>: no value of a request is
  callable, and the inherited \<^verbatim>\<open>valueOf\<close> returns the object. An array is joined, which
  converts its elements other than \<^verbatim>\<open>null\<close> and \<^verbatim>\<open>undefined\<close>. Every other value
  converts.
\<close>

fun convertsToString :: "jsval \<Rightarrow> bool"
  and elementsConvert :: "jsval list \<Rightarrow> bool" where
  "convertsToString (JObj kvs) = (''toString'' \<notin> set (map fst kvs))"
| "convertsToString (JArr xs) = elementsConvert xs"
| "convertsToString JUndefined = True"
| "convertsToString JNull = True"
| "convertsToString (JBool b) = True"
| "convertsToString (JNum n) = True"
| "convertsToString (JStr s) = True"
| "elementsConvert [] = True"
| "elementsConvert (x # xs) = (convertsToString x \<and> elementsConvert xs)"

section \<open>String helpers of the runtime\<close>

definition startsWith :: "string \<Rightarrow> string \<Rightarrow> bool" where
  "startsWith s p = (take (length p) s = p)"

text \<open>\<^verbatim>\<open>x.startsWith("0x") ? x.slice(2) : x\<close>, as both files strip the prefix.\<close>

definition strip0x :: "string \<Rightarrow> string" where
  "strip0x s = (if startsWith s ''0x'' then drop 2 s else s)"

text \<open>\<^verbatim>\<open>x.startsWith("0x") ? x : "0x" + x\<close>.\<close>

definition add0x :: "string \<Rightarrow> string" where
  "add0x s = (if startsWith s ''0x'' then s else ''0x'' @ s)"

definition toLowerChar :: "char \<Rightarrow> char" where
  "toLowerChar c =
     (case map_of (zip ''ABCDEFGHIJKLMNOPQRSTUVWXYZ'' ''abcdefghijklmnopqrstuvwxyz'') c of
        None \<Rightarrow> c | Some d \<Rightarrow> d)"

definition toLowerCase :: "string \<Rightarrow> string" where
  "toLowerCase s = map toLowerChar s"

type_synonym byte = "8 word"

definition hexDigitValue :: "char \<Rightarrow> nat option" where
  "hexDigitValue c =
     map_of (zip ''0123456789abcdefABCDEF''
                 [0, 1, 2, 3, 4, 5, 6, 7, 8, 9, 10, 11, 12, 13, 14, 15, 10, 11, 12, 13, 14, 15]) c"

text \<open>
  \<^verbatim>\<open>Buffer.from(s, "hex")\<close>: two hex digits of either case give a byte; decoding stops at
  the first pair that is not hex, and an odd last character is dropped.
\<close>

fun bufferFromHex :: "string \<Rightarrow> byte list" where
  "bufferFromHex (a # b # rest) =
     (case hexDigitValue a of
        None \<Rightarrow> []
      | Some h \<Rightarrow>
          (case hexDigitValue b of
             None \<Rightarrow> []
           | Some l \<Rightarrow> of_nat (16 * h + l) # bufferFromHex rest))"
| "bufferFromHex s = []"

section \<open>JSON serialisation\<close>

function natToString :: "nat \<Rightarrow> string" where
  "natToString n =
     (if n < 10 then [''0123456789'' ! n]
      else natToString (n div 10) @ [''0123456789'' ! (n mod 10)])"
  by pat_completeness auto
termination
  by (relation "measure id") auto

definition numberToString :: "int \<Rightarrow> string" where
  "numberToString n = (if n < 0 then ''-'' @ natToString (nat (- n)) else natToString (nat n))"

text \<open>
  \<^verbatim>\<open>QuoteJSONString\<close>: the quote, the backslash and the control characters are escaped.
\<close>

definition quoteJSONChar :: "char \<Rightarrow> string" where
  "quoteJSONChar c =
     (if c = CHR 0x22 then [CHR 0x5C, CHR 0x22]
      else if c = CHR 0x5C then [CHR 0x5C, CHR 0x5C]
      else if c = CHR 0x08 then [CHR 0x5C, CHR ''b'']
      else if c = CHR 0x0C then [CHR 0x5C, CHR ''f'']
      else if c = CHR 0x0A then [CHR 0x5C, CHR ''n'']
      else if c = CHR 0x0D then [CHR 0x5C, CHR ''r'']
      else if c = CHR 0x09 then [CHR 0x5C, CHR ''t'']
      else if (of_char c :: nat) < 32
        then [CHR 0x5C, CHR ''u'', CHR ''0'', CHR ''0'',
              ''0123456789abcdef'' ! (of_char c div 16), ''0123456789abcdef'' ! (of_char c mod 16)]
      else [c])"

definition quoteJSONString :: "string \<Rightarrow> string" where
  "quoteJSONString s = [CHR 0x22] @ concat (map quoteJSONChar s) @ [CHR 0x22]"

fun joinWith :: "string \<Rightarrow> string list \<Rightarrow> string" where
  "joinWith sep [] = []"
| "joinWith sep [x] = x"
| "joinWith sep (x # y # ys) = x @ sep @ joinWith sep (y # ys)"

lemma size_objGet:
  "key \<in> fst ` set kvs \<Longrightarrow> size (objGet kvs key) \<le> size_list (size_prod (\<lambda>x. 0) size) kvs"
proof (induction kvs)
  case Nil
  then show ?case by simp
next
  case (Cons p ps)
  show ?case
  proof (cases "key = fst p")
    case True
    then show ?thesis by (cases p) (simp add: objGet_def)
  next
    case False
    with Cons.prems have "key \<in> fst ` set ps" by auto
    from Cons.IH [OF this] False show ?thesis by (cases p) (simp add: objGet_def)
  qed
qed

lemma set_ownPropertyKeys: "set (ownPropertyKeys kvs) = fst ` set kvs"
  by (auto simp: ownPropertyKeys_def)

text \<open>
  \<^verbatim>\<open>JSON.stringify\<close>. The result is \<^verbatim>\<open>undefined\<close> (here \<open>None\<close>) on \<^verbatim>\<open>undefined\<close>; an
  \<^verbatim>\<open>undefined\<close> array element is written \<^verbatim>\<open>null\<close>, an \<^verbatim>\<open>undefined\<close> property is left out.
\<close>

function jsonStringify :: "jsval \<Rightarrow> string option" where
  "jsonStringify JUndefined = None"
| "jsonStringify JNull = Some ''null''"
| "jsonStringify (JBool b) = Some (if b then ''true'' else ''false'')"
| "jsonStringify (JNum n) = Some (numberToString n)"
| "jsonStringify (JStr s) = Some (quoteJSONString s)"
| "jsonStringify (JArr xs) =
     Some (''['' @ joinWith '',''
             (map (\<lambda>x. case jsonStringify x of None \<Rightarrow> ''null'' | Some s \<Rightarrow> s) xs) @ '']'')"
| "jsonStringify (JObj kvs) =
     Some (''{'' @ joinWith '',''
             (concat (map (\<lambda>key. case jsonStringify (objGet kvs key) of
                                   None \<Rightarrow> []
                                 | Some s \<Rightarrow> [quoteJSONString key @ '':'' @ s])
                          (ownPropertyKeys kvs))) @ ''}'')"
  by pat_completeness auto
termination
  by (relation "measure size") (auto simp: set_ownPropertyKeys size_objGet less_Suc_eq_le size_list_estimation' intro!: size_objGet)

section \<open>The canonical serialiser of the generator\<close>

text \<open>
  \<^verbatim>\<open>sortObjectKeys\<close> and \<^verbatim>\<open>canonicalStringify\<close> of \<^verbatim>\<open>secure-proof.js\<close>:
  \<^verbatim>\<open>
  function sortObjectKeys(obj) {
      if (typeof obj !== "object" || obj === null) { return obj; }
      if (Array.isArray(obj)) { return obj.map(sortObjectKeys); }
      return Object.keys(obj).sort().reduce((acc, key) => {
          acc[key] = sortObjectKeys(obj[key]);
          return acc;
      }, {});
  }
  export function canonicalStringify(value) {
      const sortedValue = sortObjectKeys(value);
      return JSON.stringify(sortedValue);
  }
  \<close>
\<close>

function sortObjectKeys :: "jsval \<Rightarrow> jsval" where
  "sortObjectKeys JUndefined = JUndefined"
| "sortObjectKeys JNull = JNull"
| "sortObjectKeys (JBool b) = JBool b"
| "sortObjectKeys (JNum n) = JNum n"
| "sortObjectKeys (JStr s) = JStr s"
| "sortObjectKeys (JArr xs) = JArr (map sortObjectKeys xs)"
| "sortObjectKeys (JObj kvs) =
     JObj (foldl (\<lambda>acc key. objAssign acc key (sortObjectKeys (objGet kvs key))) []
                 (sort (ownPropertyKeys kvs)))"
  by pat_completeness auto
termination
  by (relation "measure size") (auto simp: set_ownPropertyKeys size_objGet less_Suc_eq_le size_list_estimation' intro!: size_objGet)

definition canonicalStringify :: "jsval \<Rightarrow> string option" where
  "canonicalStringify v = jsonStringify (sortObjectKeys v)"

lemma canonicalStringify_JObj: "canonicalStringify (JObj kvs) \<noteq> None"
  by (simp add: canonicalStringify_def)

section \<open>Objects as dictionaries\<close>

text \<open>
  Both nonce stores are an object made by \<^verbatim>\<open>{}\<close> that holds, under each signer address, an
  object made by \<^verbatim>\<open>{}\<close> that holds a value under each session. What such an inner object
  gives under a key is a \<open>nonce_value\<close>: \<^verbatim>\<open>undefined\<close>, a number, \<^verbatim>\<open>NaN\<close>, or for the name
  of a property of \<^verbatim>\<open>Object.prototype\<close> the inherited value: a function, and under
  \<^verbatim>\<open>__proto__\<close> the prototype object itself.
\<close>

datatype nonce_value = NUndefined | NNum int | NNaN | NInherited string

definition inheritedNames :: "string list" where
  "inheritedNames =
     [''__proto__'', ''constructor'', ''hasOwnProperty'', ''isPrototypeOf'',
      ''propertyIsEnumerable'', ''toLocaleString'', ''toString'', ''valueOf'',
      ''__defineGetter__'', ''__defineSetter__'', ''__lookupGetter__'', ''__lookupSetter__'']"

text \<open>
  \<^verbatim>\<open>obj[key]\<close>: the own property, else the inherited one. \<^verbatim>\<open>__proto__\<close> is an accessor of
  the prototype and never an own property of these objects.
\<close>

definition dictGet :: "(string \<rightharpoonup> nonce_value) \<Rightarrow> string \<Rightarrow> nonce_value" where
  "dictGet obj key =
     (if key = ''__proto__'' then NInherited key
      else case obj key of
             Some v \<Rightarrow> v
           | None \<Rightarrow> if key \<in> set inheritedNames then NInherited key else NUndefined)"

text \<open>
  \<^verbatim>\<open>obj[key] = v\<close> for a number \<open>v\<close>: an own property is written, except under \<^verbatim>\<open>__proto__\<close>,
  where the setter ignores a value that is not an object.
\<close>

definition dictSet :: "(string \<rightharpoonup> nonce_value) \<Rightarrow> string \<Rightarrow> nonce_value \<Rightarrow> (string \<rightharpoonup> nonce_value)" where
  "dictSet obj key v = (if key = ''__proto__'' then obj else obj(key \<mapsto> v))"

text \<open>
  \<open>n + 1\<close> on doubles, for an integer \<open>n\<close> that a double holds. Up to \<open>2^53\<close> in magnitude
  the sum is exact. From there to \<open>2^54\<close> doubles are two apart, \<open>n + 1\<close> lies midway
  between two of them and is rounded to the one with the even significand; beyond, the
  sum is \<open>n\<close> again.
\<close>

definition plusOne :: "int \<Rightarrow> int" where
  "plusOne n =
     (if - (2 ^ 53) \<le> n \<and> n < 2 ^ 53 then n + 1
      else if \<bar>n\<bar> < 2 ^ 54 then (if even (n div 2) then n else n + 2)
      else n)"

text \<open>
  \<^verbatim>\<open>x++\<close> stores \<open>x\<close> as a number plus one: a function, the prototype object and
  \<^verbatim>\<open>undefined\<close> are \<^verbatim>\<open>NaN\<close> as numbers, and \<^verbatim>\<open>NaN\<close> plus one is \<^verbatim>\<open>NaN\<close>.
\<close>

fun increment :: "nonce_value \<Rightarrow> nonce_value" where
  "increment (NNum n) = NNum (plusOne n)"
| "increment v = NNaN"

section \<open>The nonce counter of the generator\<close>

text \<open>
  The generator's module-level \<^verbatim>\<open>nonceStore\<close> starts empty.
  \<^verbatim>\<open>
  export function getAndIncNonce(signerAddress, session) {
      if (!nonceStore[signerAddress]) { nonceStore[signerAddress] = {}; }
      if (nonceStore[signerAddress][session] === undefined) {
          nonceStore[signerAddress][session] = 0;
      }
      const currentNonce = nonceStore[signerAddress][session];
      nonceStore[signerAddress][session]++;
      return currentNonce;
  }
  \<close>
\<close>

type_synonym nonce_store = "string \<rightharpoonup> (string \<rightharpoonup> nonce_value)"

definition getAndIncNonce :: "nonce_store \<Rightarrow> string \<Rightarrow> string \<Rightarrow> nonce_value \<times> nonce_store" where
  "getAndIncNonce nonceStore signerAddress session =
     (let sessions = (case nonceStore signerAddress of None \<Rightarrow> Map.empty | Some m \<Rightarrow> m);
          sessions = (if dictGet sessions session = NUndefined
                      then dictSet sessions session (NNum 0) else sessions);
          currentNonce = dictGet sessions session
      in (currentNonce,
          nonceStore(signerAddress \<mapsto> dictSet sessions session (increment currentNonce))))"

section \<open>The runtime and its libraries\<close>

text \<open>
  What the two files call and do not define is a parameter of the model:
  \<^item> \<open>keccak256\<close>: the \<^verbatim>\<open>ethers\<close> digest of the bytes of a string, as a hex string;
  \<^item> \<open>verifyMessage\<close>: the \<^verbatim>\<open>ethers\<close> recovery of the signer of a personal message,
    which returns an address or throws. Which signatures it throws on is the library's
    matter: \<^verbatim>\<open>ethers\<close> 5 throws on a signature that is not of 65 or 64 bytes, reads one
    of 64 bytes as the compact form, and reads a recovery id of 27 or more by its parity;
  \<^item> \<open>dateGetTime\<close>: the milliseconds \<^verbatim>\<open>new Date(v).getTime()\<close> returns, and \<open>None\<close> when
    there are none: the date is invalid and its time is \<^verbatim>\<open>NaN\<close>, or the constructor
    threw, which it does exactly when \<open>v\<close> does not convert to a primitive;
  \<^item> \<open>dateNow\<close>: \<^verbatim>\<open>Date.now()\<close>;
  \<^item> \<open>randomUUID\<close> and \<open>toISOString\<close>: \<^verbatim>\<open>randomUUID()\<close> and
    \<^verbatim>\<open>new Date().toISOString()\<close> at the call.
\<close>

record runtime =
  keccak256 :: "string \<Rightarrow> string"
  verifyMessage :: "byte list \<Rightarrow> string \<Rightarrow> js_error + string"
  dateGetTime :: "jsval \<Rightarrow> int option"
  dateNow :: int
  randomUUID :: string
  toISOString :: string

record wallet =
  address :: string
  signMessage :: "byte list \<Rightarrow> string"

section \<open>The proof generator\<close>

text \<open>
  \<^verbatim>\<open>generateDeProof(params, wallet, currentSession)\<close> of \<^verbatim>\<open>secure-proof.js\<close>. The nonce is
  taken and advanced before anything is awaited. The result is the object the function
  returns, \<^verbatim>\<open>{ signerAddress, nonce, session, timestamp, digest, signature }\<close>, with the
  fields in this order; its nonce is whatever \<^verbatim>\<open>getAndIncNonce\<close> returned.
\<close>

datatype de_proof = DeProof string nonce_value string string string string

text \<open>
  The nonce inside the object that is serialised, as the value of a request that
  \<^verbatim>\<open>canonicalStringify\<close> writes alike: \<^verbatim>\<open>sortObjectKeys\<close> returns a number, \<^verbatim>\<open>NaN\<close> and a
  function as they are and makes \<^verbatim>\<open>{}\<close> of the prototype object, which has no enumerable
  property; \<^verbatim>\<open>JSON.stringify\<close> writes \<^verbatim>\<open>NaN\<close> as \<^verbatim>\<open>null\<close> and leaves a property out whose
  value is a function, as it does for \<^verbatim>\<open>undefined\<close>.
\<close>

fun nonceAsJson :: "nonce_value \<Rightarrow> jsval" where
  "nonceAsJson (NNum n) = JNum n"
| "nonceAsJson NNaN = JNull"
| "nonceAsJson NUndefined = JUndefined"
| "nonceAsJson (NInherited key) = (if key = ''__proto__'' then JObj [] else JUndefined)"

definition generateDeProof ::
  "runtime \<Rightarrow> jsval \<Rightarrow> wallet \<Rightarrow> string option \<Rightarrow> nonce_store \<Rightarrow> (js_error + de_proof) \<times> nonce_store" where
  "generateDeProof rt params wallet currentSession nonceStore =
     (let session = (case currentSession of None \<Rightarrow> randomUUID rt | Some s \<Rightarrow> s);
          timestamp = toISOString rt;
          (nonce, nonceStore') = getAndIncNonce nonceStore (address wallet) session;
          dataToSign = JObj [(''params'', params), (''nonce'', nonceAsJson nonce),
                             (''session'', JStr session), (''timestamp'', JStr timestamp)]
      in case canonicalStringify dataToSign of
           None \<Rightarrow> (Inl TypeError, nonceStore')
         | Some serializedData \<Rightarrow>
             (let digest = keccak256 rt serializedData;
                  digestWithoutPrefix = strip0x digest;
                  messageBytes = bufferFromHex digestWithoutPrefix;
                  signature = signMessage wallet messageBytes;
                  signatureWithoutPrefix = strip0x signature
              in (Inr (DeProof (address wallet) nonce session timestamp
                         digestWithoutPrefix signatureWithoutPrefix),
                  nonceStore')))"

text \<open>
  Successive generations, each with the runtime of its moment, its parameters, wallet and
  session argument, on the store the one before left.
\<close>

type_synonym generation = "runtime \<times> jsval \<times> wallet \<times> string option"

fun generateDeProofs :: "nonce_store \<Rightarrow> generation list \<Rightarrow> (js_error + de_proof) list" where
  "generateDeProofs nonceStore [] = []"
| "generateDeProofs nonceStore ((rt, params, wallet, currentSession) # calls) =
     (case generateDeProof rt params wallet currentSession nonceStore of
        (proof, nonceStore') \<Rightarrow> proof # generateDeProofs nonceStore' calls)"


section \<open>The nonce store of the validator\<close>

text \<open>
  \<^verbatim>\<open>InMemoryNonceStore\<close> of \<^verbatim>\<open>secure-validator.js\<close>; a new store is empty.
  \<^verbatim>\<open>
  async getExpectedNonce(signerAddress, session) {
      if (this.store[signerAddress] && this.store[signerAddress][session] !== undefined) {
          return this.store[signerAddress][session];
      }
      return 0;
  }
  async incrementAndSetNonce(signerAddress, session, validatedNonce) {
      if (!this.store[signerAddress]) { this.store[signerAddress] = {}; }
      this.store[signerAddress][session] = validatedNonce + 1;
  }
  \<close>
  Neither method throws on strings, so the validator's handlers for a failing store
  (the two \<open>-32000\<close> store rejections) are never entered with this store. The validator
  passes a number as \<^verbatim>\<open>validatedNonce\<close>.
\<close>

definition getExpectedNonce :: "nonce_store \<Rightarrow> string \<Rightarrow> string \<Rightarrow> nonce_value" where
  "getExpectedNonce store signerAddress session =
     (case store signerAddress of
        None \<Rightarrow> NNum 0
      | Some sessions \<Rightarrow>
          if dictGet sessions session \<noteq> NUndefined then dictGet sessions session else NNum 0)"

definition incrementAndSetNonce :: "nonce_store \<Rightarrow> string \<Rightarrow> string \<Rightarrow> int \<Rightarrow> nonce_store" where
  "incrementAndSetNonce store signerAddress session validatedNonce =
     (let sessions = (case store signerAddress of None \<Rightarrow> Map.empty | Some m \<Rightarrow> m)
      in store(signerAddress \<mapsto> dictSet sessions session (NNum (plusOne validatedNonce))))"

section \<open>The proof validator\<close>

text \<open>
  \<^verbatim>\<open>validateDeProof(request, nonceStore)\<close> returns \<^verbatim>\<open>null\<close> (here \<open>None\<close>) when it accepts
  and an object \<^verbatim>\<open>{ code, message }\<close> when it rejects. A rejection is named after the
  place that returns it; \<open>code\<close> is its \<^verbatim>\<open>code\<close> field. The messages are left out.
\<close>

datatype rejection =
    MissingDeProof
  | TimestampOutOfRange
  | TimestampInvalidFormat
  | NonceMismatch
  | NonceStoreUnavailable
  | DigestMismatch
  | SignatureAddressMismatch
  | SignatureException
  | NonceUpdateFailed
  | ValidationException

fun code :: "rejection \<Rightarrow> int" where
  "code MissingDeProof = - 32602"
| "code TimestampOutOfRange = - 32001"
| "code TimestampInvalidFormat = - 32002"
| "code NonceMismatch = - 32003"
| "code NonceStoreUnavailable = - 32000"
| "code DigestMismatch = - 32005"
| "code SignatureAddressMismatch = - 32006"
| "code SignatureException = - 32007"
| "code NonceUpdateFailed = - 32000"
| "code ValidationException = - 32000"

subsection \<open>Stage 2: timestamp validation\<close>

text \<open>
  \<^verbatim>\<open>
  const TIME_TOLERANCE_SECONDS = 60;
  try {
      const requestTimestamp = new Date(deProof.timestamp).getTime();
      const currentTimestamp = Date.now();
      const diffSeconds = Math.abs(currentTimestamp - requestTimestamp) / 1000;
      if (diffSeconds > TIME_TOLERANCE_SECONDS) { return { code: -32001, ... }; }
  } catch (error) { return { code: -32002, ... }; }
  \<close>
  Both times are whole milliseconds, so \<open>diffSeconds\<close> is a rational; rounding the
  quotient to a double is monotone and keeps \<open>60\<close>, so the comparison with \<open>60\<close> is the
  one of the rationals. When the date is invalid, \<open>requestTimestamp\<close> is \<^verbatim>\<open>NaN\<close>, so is
  \<open>diffSeconds\<close>, and \<^verbatim>\<open>NaN > 60\<close> is false: the block ends without a rejection.
  \<^verbatim>\<open>new Date(v)\<close> converts \<open>v\<close> to a primitive first; when that throws the handler
  answers \<open>TimestampInvalidFormat\<close>. It is the only way into the handler, and no
  string takes it.
\<close>

definition TIME_TOLERANCE_SECONDS :: rat where
  "TIME_TOLERANCE_SECONDS = 60"

definition timestampValidation :: "runtime \<Rightarrow> jsval \<Rightarrow> rejection option" where
  "timestampValidation rt timestamp =
     (case dateGetTime rt timestamp of
        None \<Rightarrow> if convertsToString timestamp then None else Some TimestampInvalidFormat
      | Some requestTimestamp \<Rightarrow>
          (let currentTimestamp = dateNow rt;
               diffSeconds = of_int \<bar>currentTimestamp - requestTimestamp\<bar> / 1000
           in if diffSeconds > TIME_TOLERANCE_SECONDS then Some TimestampOutOfRange else None))"

subsection \<open>Stage 3: nonce validation\<close>

text \<open>
  \<^verbatim>\<open>
  const expectedNonce = await nonceStore.getExpectedNonce(deProof.signerAddress, deProof.session);
  if (deProof.nonce !== expectedNonce) { return { code: -32003, ... }; }
  \<close>
  The comparison is strict. When the store gives a number, only that number as the
  nonce of the request equals it. \<^verbatim>\<open>NaN\<close> differs from everything, and no value of a
  request is identical to a function or to the prototype object. The stage hands on
  the nonce it has validated, a number.
\<close>

definition nonceComparison :: "jsval \<Rightarrow> nonce_value \<Rightarrow> rejection + int" where
  "nonceComparison nonce expectedNonce =
     (case expectedNonce of
        NNum expected \<Rightarrow> if nonce \<noteq> JNum expected then Inl NonceMismatch else Inr expected
      | NUndefined \<Rightarrow> Inl NonceMismatch
      | NNaN \<Rightarrow> Inl NonceMismatch
      | NInherited key \<Rightarrow> Inl NonceMismatch)"

definition nonceValidation :: "nonce_store \<Rightarrow> string \<Rightarrow> string \<Rightarrow> jsval \<Rightarrow> rejection + int" where
  "nonceValidation nonceStore signerAddress session nonce =
     (let expectedNonce = getExpectedNonce nonceStore signerAddress session
      in nonceComparison nonce expectedNonce)"

subsection \<open>Stage 4: the digest\<close>

text \<open>
  The validator declares its own \<^verbatim>\<open>sortObjectKeys\<close> and \<^verbatim>\<open>canonicalStringify\<close> inside
  \<^verbatim>\<open>validateDeProof\<close>, with the text of the generator's.
\<close>

function validator_sortObjectKeys :: "jsval \<Rightarrow> jsval" where
  "validator_sortObjectKeys JUndefined = JUndefined"
| "validator_sortObjectKeys JNull = JNull"
| "validator_sortObjectKeys (JBool b) = JBool b"
| "validator_sortObjectKeys (JNum n) = JNum n"
| "validator_sortObjectKeys (JStr s) = JStr s"
| "validator_sortObjectKeys (JArr xs) = JArr (map validator_sortObjectKeys xs)"
| "validator_sortObjectKeys (JObj kvs) =
     JObj (foldl (\<lambda>acc key. objAssign acc key (validator_sortObjectKeys (objGet kvs key))) []
                 (sort (ownPropertyKeys kvs)))"
  by pat_completeness auto
termination
  by (relation "measure size") (auto simp: set_ownPropertyKeys size_objGet less_Suc_eq_le size_list_estimation' intro!: size_objGet)

definition validator_canonicalStringify :: "jsval \<Rightarrow> string option" where
  "validator_canonicalStringify v = jsonStringify (validator_sortObjectKeys v)"

text \<open>
  \<^verbatim>\<open>
  const actualParams = { ...params };
  delete actualParams._deProof;
  const dataToVerify = { params: actualParams, nonce: deProof.nonce,
                         session: deProof.session, timestamp: deProof.timestamp };
  \<close>
  When the stage is reached \<open>params\<close> is an object, the only kind of value with a
  \<^verbatim>\<open>_deProof\<close> property; \<open>spread\<close> gives no property to any other value.
\<close>

fun spread :: "jsval \<Rightarrow> (string \<times> jsval) list" where
  "spread (JObj kvs) = objSpread kvs"
| "spread v = []"

definition dataToVerify :: "jsval \<Rightarrow> jsval \<Rightarrow> jsval" where
  "dataToVerify params deProof =
     (let actualParams = objDelete (spread params) ''_deProof''
      in JObj [(''params'', JObj actualParams), (''nonce'', propOf deProof ''nonce''),
               (''session'', propOf deProof ''session''),
               (''timestamp'', propOf deProof ''timestamp'')])"

text \<open>
  \<^verbatim>\<open>
  const serializedData = canonicalStringify(dataToVerify);
  const calculatedDigest = ethers.utils.keccak256(Buffer.from(serializedData));
  const calculatedDigestWithoutPrefix = calculatedDigest.startsWith("0x")
      ? calculatedDigest.slice(2) : calculatedDigest;
  const clientDigest = deProof.digest.startsWith("0x") ? deProof.digest.slice(2) : deProof.digest;
  if (calculatedDigestWithoutPrefix !== clientDigest) { return { code: -32005, ... }; }
  \<close>
  A \<^verbatim>\<open>digest\<close> that is not a string makes \<^verbatim>\<open>startsWith\<close> throw; this is outside the
  inner handlers, so the outer one returns \<open>ValidationException\<close>. The stage hands on
  \<open>clientDigest\<close>.
\<close>

definition digestValidation :: "runtime \<Rightarrow> jsval \<Rightarrow> jsval \<Rightarrow> rejection + string" where
  "digestValidation rt params deProof =
     (case validator_canonicalStringify (dataToVerify params deProof) of
        None \<Rightarrow> Inl ValidationException
      | Some serializedData \<Rightarrow>
          (let calculatedDigest = keccak256 rt serializedData;
               calculatedDigestWithoutPrefix = strip0x calculatedDigest
           in case asString (propOf deProof ''digest'') of
                None \<Rightarrow> Inl ValidationException
              | Some digest \<Rightarrow>
                  (let clientDigest = strip0x digest
                   in if calculatedDigestWithoutPrefix \<noteq> clientDigest then Inl DigestMismatch
                      else Inr clientDigest)))"

subsection \<open>Stage 5: the signature\<close>

text \<open>
  \<^verbatim>\<open>
  try {
      const signatureHex = deProof.signature.startsWith("0x")
          ? deProof.signature : "0x" + deProof.signature;
      const messageBytesThatWereSigned = Buffer.from(clientDigest, "hex");
      const recoveredAddress = ethers.utils.verifyMessage(messageBytesThatWereSigned, signatureHex);
      if (recoveredAddress.toLowerCase() !== deProof.signerAddress.toLowerCase()) {
          return { code: -32006, ... };
      }
  } catch (error) { return { code: -32007, ... }; }
  \<close>
  Whatever is thrown inside the block, by \<^verbatim>\<open>startsWith\<close> on a signature that is not a
  string or by \<^verbatim>\<open>verifyMessage\<close>, is answered with \<open>SignatureException\<close>.
\<close>

definition signatureValidation :: "runtime \<Rightarrow> jsval \<Rightarrow> string \<Rightarrow> string \<Rightarrow> rejection option" where
  "signatureValidation rt deProof signerAddress clientDigest =
     (case asString (propOf deProof ''signature'') of
        None \<Rightarrow> Some SignatureException
      | Some signature \<Rightarrow>
          (let signatureHex = add0x signature;
               messageBytesThatWereSigned = bufferFromHex clientDigest
           in case verifyMessage rt messageBytesThatWereSigned signatureHex of
                Inl error \<Rightarrow> Some SignatureException
              | Inr recoveredAddress \<Rightarrow>
                  if toLowerCase recoveredAddress \<noteq> toLowerCase signerAddress
                  then Some SignatureAddressMismatch else None))"

subsection \<open>The pipeline\<close>

text \<open>
  The stages in the order of the source. Stage 1 reads \<^verbatim>\<open>request.params._deProof\<close> and
  returns \<open>MissingDeProof\<close> when it is falsy. The log line after it calls
  \<^verbatim>\<open>substring\<close> on \<^verbatim>\<open>deProof.signerAddress\<close> and \<^verbatim>\<open>deProof.session\<close>, which throws unless
  both are strings, and writes \<^verbatim>\<open>deProof.nonce\<close> into a template literal, which throws when
  the nonce does not convert; these and every other exception outside the inner handlers
  reach the outer handler, which returns \<open>ValidationException\<close>. Stage 6 is the only
  place that changes the store. The result is the answer and the store after the call,
  for a call that no other call overlaps.
\<close>

definition validateDeProof ::
  "runtime \<Rightarrow> jsval \<Rightarrow> nonce_store \<Rightarrow> rejection option \<times> nonce_store" where
  "validateDeProof rt request nonceStore =
     (case getProp request ''params'' of
        Inl error \<Rightarrow> (Some ValidationException, nonceStore)
      | Inr params \<Rightarrow>
     (case getProp params ''_deProof'' of
        Inl error \<Rightarrow> (Some ValidationException, nonceStore)
      | Inr deProof \<Rightarrow>
     if \<not> truthy deProof then (Some MissingDeProof, nonceStore)
     else
     (case asString (propOf deProof ''signerAddress'') of
        None \<Rightarrow> (Some ValidationException, nonceStore)
      | Some signerAddress \<Rightarrow>
     (case asString (propOf deProof ''session'') of
        None \<Rightarrow> (Some ValidationException, nonceStore)
      | Some session \<Rightarrow>
     if \<not> convertsToString (propOf deProof ''nonce'') then (Some ValidationException, nonceStore)
     else
     (case timestampValidation rt (propOf deProof ''timestamp'') of
        Some rejected \<Rightarrow> (Some rejected, nonceStore)
      | None \<Rightarrow>
     (case nonceValidation nonceStore signerAddress session (propOf deProof ''nonce'') of
        Inl rejected \<Rightarrow> (Some rejected, nonceStore)
      | Inr nonce \<Rightarrow>
     (case digestValidation rt params deProof of
        Inl rejected \<Rightarrow> (Some rejected, nonceStore)
      | Inr clientDigest \<Rightarrow>
     (case signatureValidation rt deProof signerAddress clientDigest of
        Some rejected \<Rightarrow> (Some rejected, nonceStore)
      | None \<Rightarrow> (None, incrementAndSetNonce nonceStore signerAddress session nonce)))))))))"

text \<open>
  Validation attempts one after the other, each with the runtime of its moment, on the
  store the one before left: the answers, and the store at the end. Each attempt has
  returned before the next one is called.
\<close>

fun validateDeProofs ::
  "nonce_store \<Rightarrow> (runtime \<times> jsval) list \<Rightarrow> rejection option list \<times> nonce_store" where
  "validateDeProofs nonceStore [] = ([], nonceStore)"
| "validateDeProofs nonceStore ((rt, request) # attempts) =
     (case validateDeProof rt request nonceStore of
        (answer, nonceStore') \<Rightarrow>
          (case validateDeProofs nonceStore' attempts of
             (answers, nonceStore'') \<Rightarrow> (answer # answers, nonceStore'')))"

subsection \<open>Overlapping calls\<close>

text \<open>
  \<^verbatim>\<open>validateDeProof\<close> is an \<^verbatim>\<open>async\<close> function with two \<^verbatim>\<open>await\<close>s: on the result of
  \<^verbatim>\<open>getExpectedNonce\<close> in stage 3 and on \<^verbatim>\<open>incrementAndSetNonce\<close> in stage 6. The methods of
  the store run when they are called; the caller is suspended after that, and other
  calls run meanwhile. The part of a call up to its first suspension reads the expected
  nonce from the store as it is then, and keeps it together with what it has read from
  the request.
\<close>

type_synonym suspended = "jsval \<times> jsval \<times> string \<times> string \<times> nonce_value"

definition validateDeProof_untilAwait ::
  "runtime \<Rightarrow> jsval \<Rightarrow> nonce_store \<Rightarrow> rejection + suspended" where
  "validateDeProof_untilAwait rt request nonceStore =
     (case getProp request ''params'' of
        Inl error \<Rightarrow> Inl ValidationException
      | Inr params \<Rightarrow>
     (case getProp params ''_deProof'' of
        Inl error \<Rightarrow> Inl ValidationException
      | Inr deProof \<Rightarrow>
     if \<not> truthy deProof then Inl MissingDeProof
     else
     (case asString (propOf deProof ''signerAddress'') of
        None \<Rightarrow> Inl ValidationException
      | Some signerAddress \<Rightarrow>
     (case asString (propOf deProof ''session'') of
        None \<Rightarrow> Inl ValidationException
      | Some session \<Rightarrow>
     if \<not> convertsToString (propOf deProof ''nonce'') then Inl ValidationException
     else
     (case timestampValidation rt (propOf deProof ''timestamp'') of
        Some rejected \<Rightarrow> Inl rejected
      | None \<Rightarrow>
          Inr (params, deProof, signerAddress, session,
               getExpectedNonce nonceStore signerAddress session))))))"

text \<open>
  The part of a call from its first suspension on, on the store as it is when the call
  resumes: the comparison with the expected nonce read earlier, stages 4 and 5, and the
  write of stage 6. What follows the second suspension logs and returns \<^verbatim>\<open>null\<close>.
\<close>

definition validateDeProof_afterAwait ::
  "runtime \<Rightarrow> suspended \<Rightarrow> nonce_store \<Rightarrow> rejection option \<times> nonce_store" where
  "validateDeProof_afterAwait rt suspended nonceStore =
     (case suspended of (params, deProof, signerAddress, session, expectedNonce) \<Rightarrow>
     (case nonceComparison (propOf deProof ''nonce'') expectedNonce of
        Inl rejected \<Rightarrow> (Some rejected, nonceStore)
      | Inr nonce \<Rightarrow>
     (case digestValidation rt params deProof of
        Inl rejected \<Rightarrow> (Some rejected, nonceStore)
      | Inr clientDigest \<Rightarrow>
     (case signatureValidation rt deProof signerAddress clientDigest of
        Some rejected \<Rightarrow> (Some rejected, nonceStore)
      | None \<Rightarrow> (None, incrementAndSetNonce nonceStore signerAddress session nonce)))))"


section \<open>Notions used in the statements\<close>


fun deProofObject :: "de_proof \<Rightarrow> jsval" where
  "deProofObject (DeProof signerAddress nonce session timestamp digest signature) =
     JObj [(''signerAddress'', JStr signerAddress), (''nonce'', nonceAsJson nonce),
           (''session'', JStr session), (''timestamp'', JStr timestamp),
           (''digest'', JStr digest), (''signature'', JStr signature)]"



text \<open>
  The proof a request carries, and the address, session and nonce it presents when these
  are two strings and a number.
\<close>

definition deProofOf :: "jsval \<Rightarrow> jsval" where
  "deProofOf request = propOf (propOf request ''params'') ''_deProof''"

fun asNumber :: "jsval \<Rightarrow> int option" where
  "asNumber (JNum n) = Some n"
| "asNumber v = None"

definition presentedTriple :: "jsval \<Rightarrow> (string \<times> string \<times> int) option" where
  "presentedTriple request =
     (case asString (propOf (deProofOf request) ''signerAddress'') of
        None \<Rightarrow> None
      | Some signerAddress \<Rightarrow>
          (case asString (propOf (deProofOf request) ''session'') of
             None \<Rightarrow> None
           | Some session \<Rightarrow>
               (case asNumber (propOf (deProofOf request) ''nonce'') of
                  None \<Rightarrow> None
                | Some nonce \<Rightarrow> Some (signerAddress, session, nonce))))"

text \<open>
  A request comes through stage 1 with the parameters \<open>params\<close>, the proof \<open>deProof\<close>, the
  address and the session when \<^verbatim>\<open>request.params._deProof\<close> can be read and is truthy and
  the log line finds two strings and a nonce that converts.
\<close>

definition passesStage1 :: "jsval \<Rightarrow> jsval \<Rightarrow> jsval \<Rightarrow> string \<Rightarrow> string \<Rightarrow> bool" where
  "passesStage1 request params deProof signerAddress session =
     (getProp request ''params'' = Inr params \<and> getProp params ''_deProof'' = Inr deProof \<and>
      truthy deProof \<and>
      asString (propOf deProof ''signerAddress'') = Some signerAddress \<and>
      asString (propOf deProof ''session'') = Some session \<and>
      convertsToString (propOf deProof ''nonce''))"

text \<open>
  A value is well formed when every object in it has each key once, as every JavaScript
  object has. Two values are structurally equal when they are the same scalar, arrays of
  the same length with structurally equal elements at each position, or objects with
  the same set of keys and structurally equal values under each key; the order in which
  the keys were created plays no part.
\<close>

fun wellFormed :: "jsval \<Rightarrow> bool" where
  "wellFormed (JArr xs) = (\<forall>x \<in> set xs. wellFormed x)"
| "wellFormed (JObj kvs) = (distinct (map fst kvs) \<and> (\<forall>v \<in> snd ` set kvs. wellFormed v))"
| "wellFormed v = True"

function structurallyEqual :: "jsval \<Rightarrow> jsval \<Rightarrow> bool" where
  "structurallyEqual (JArr xs) (JArr ys) =
     (length xs = length ys \<and> (\<forall>i < length xs. structurallyEqual (xs ! i) (ys ! i)))"
| "structurallyEqual (JObj kvs) (JObj kvs') =
     (set (map fst kvs) = set (map fst kvs')
      \<and> (\<forall>key \<in> set (map fst kvs). structurallyEqual (objGet kvs key) (objGet kvs' key)))"
| "structurallyEqual (JArr xs) JUndefined = False"
| "structurallyEqual (JArr xs) JNull = False"
| "structurallyEqual (JArr xs) (JBool b) = False"
| "structurallyEqual (JArr xs) (JNum n) = False"
| "structurallyEqual (JArr xs) (JStr s) = False"
| "structurallyEqual (JArr xs) (JObj kvs) = False"
| "structurallyEqual (JObj kvs) JUndefined = False"
| "structurallyEqual (JObj kvs) JNull = False"
| "structurallyEqual (JObj kvs) (JBool b) = False"
| "structurallyEqual (JObj kvs) (JNum n) = False"
| "structurallyEqual (JObj kvs) (JStr s) = False"
| "structurallyEqual (JObj kvs) (JArr xs) = False"
| "structurallyEqual JUndefined w = (w = JUndefined)"
| "structurallyEqual JNull w = (w = JNull)"
| "structurallyEqual (JBool b) w = (w = JBool b)"
| "structurallyEqual (JNum n) w = (w = JNum n)"
| "structurallyEqual (JStr s) w = (w = JStr s)"
  by pat_completeness auto

termination
proof (relation "measure (\<lambda>(v, w). size v)")
  show "wf (measure (\<lambda>(v, w). size v))" by simp
next
  fix xs ys :: "jsval list" and i
  assume "i < length xs"
  then have "xs ! i \<in> set xs" by simp
  then have "size (xs ! i) \<le> size_list size xs" by (rule size_list_estimation') simp
  then show "((xs ! i, ys ! i), (JArr xs, JArr ys)) \<in> measure (\<lambda>(v, w). size v)" by simp
next
  fix kvs kvs' :: "(string \<times> jsval) list" and key
  assume "key \<in> set (map fst kvs)"
  then have "size (objGet kvs key) \<le> size_list (size_prod (\<lambda>x. 0) size) kvs"
    by (intro size_objGet) simp
  then show "((objGet kvs key, objGet kvs' key), (JObj kvs, JObj kvs')) \<in> measure (\<lambda>(v, w). size v)"
    by simp
qed

section \<open>Example values\<close>

text \<open>
  Concrete values for evaluating the model: a wallet, a runtime with small stand-ins for
  the libraries (a digest that depends on the first digit of the nonce in the canonical
  string, a signature scheme that appends a key mark of 33 bytes to the 32 signed bytes,
  the last byte being the recovery id 27, a date parser that knows five instants around
  the clock reading \<open>1700000000000\<close>), and requests.
\<close>

definition hexOfByte :: "byte \<Rightarrow> string" where
  "hexOfByte b = [''0123456789abcdef'' ! (unat b div 16), ''0123456789abcdef'' ! (unat b mod 16)]"

definition exampleAddress :: string where
  "exampleAddress = ''0x71C7656EC7ab88b098defB751B7401B5f6d8976F''"

definition exampleKeyMark :: string where
  "exampleKeyMark = ''5f6d8976f71c7656ec7ab88b098defb751b7401b5f6d8976f71c7656ec7ab88b1b''"

definition exampleKeccak :: "string \<Rightarrow> string" where
  "exampleKeccak s = ''0x'' @ ''c5d2460186f7233c927e7db2dcc703c0e500b653ca82273b7bfad8045d85a47'' @ take 1 (drop 9 s)"

definition exampleSignMessage :: "byte list \<Rightarrow> string" where
  "exampleSignMessage bytes = ''0x'' @ concat (map hexOfByte bytes) @ exampleKeyMark"

definition exampleVerifyMessage :: "byte list \<Rightarrow> string \<Rightarrow> js_error + string" where
  "exampleVerifyMessage bytes signatureHex =
     (if signatureHex = ''0x'' @ concat (map hexOfByte bytes) @ exampleKeyMark
      then Inr exampleAddress else Inl LibraryError)"

text \<open>
  A recovery that is lenient in the way of \<^verbatim>\<open>ethers\<close> 5, which reads a recovery id of 27 or
  more by its parity: the recovery id 29 stands for 27.
\<close>

definition exampleLenientVerifyMessage :: "byte list \<Rightarrow> string \<Rightarrow> js_error + string" where
  "exampleLenientVerifyMessage bytes signatureHex =
     (if signatureHex = ''0x'' @ concat (map hexOfByte bytes) @ exampleKeyMark
         \<or> signatureHex = ''0x'' @ concat (map hexOfByte bytes) @ take 64 exampleKeyMark @ ''1d''
      then Inr exampleAddress else Inl LibraryError)"

fun exampleDateGetTime :: "jsval \<Rightarrow> int option" where
  "exampleDateGetTime (JStr s) =
     map_of [(''2023-11-14T22:13:20.000Z'', 1700000000000),
             (''2023-11-14T22:12:20.000Z'', 1699999940000),
             (''2023-11-14T22:12:19.000Z'', 1699999939000),
             (''2023-11-14T22:14:20.000Z'', 1700000060000),
             (''2023-11-14T22:14:21.000Z'', 1700000061000)] s"
| "exampleDateGetTime (JNum n) = Some n"
| "exampleDateGetTime (JBool b) = Some (if b then 1 else 0)"
| "exampleDateGetTime JNull = Some 0"
| "exampleDateGetTime v = None"

definition exampleRuntime :: runtime where
  "exampleRuntime =
     \<lparr> keccak256 = exampleKeccak, verifyMessage = exampleVerifyMessage,
       dateGetTime = exampleDateGetTime, dateNow = 1700000000000,
       randomUUID = ''1b4e28ba-2fa1-11d2-883f-0016d3cca427'',
       toISOString = ''2023-11-14T22:13:20.000Z'' \<rparr>"

definition exampleLenientRuntime :: runtime where
  "exampleLenientRuntime =
     \<lparr> keccak256 = exampleKeccak, verifyMessage = exampleLenientVerifyMessage,
       dateGetTime = exampleDateGetTime, dateNow = 1700000000000,
       randomUUID = ''1b4e28ba-2fa1-11d2-883f-0016d3cca427'',
       toISOString = ''2023-11-14T22:13:20.000Z'' \<rparr>"

definition exampleWallet :: wallet where
  "exampleWallet = \<lparr> address = exampleAddress, signMessage = exampleSignMessage \<rparr>"

definition exampleSession :: string where
  "exampleSession = ''1b4e28ba-2fa1-11d2-883f-0016d3cca427''"

text \<open>
  The proof \<open>generateDeProof\<close> returns for \<^verbatim>\<open>{state: "CA"}\<close> on a fresh store
  (\<open>example_generated\<close>) as a value, and the request that carries it.
\<close>

definition exampleDeProof :: jsval where
  "exampleDeProof =
     JObj [(''signerAddress'', JStr ''0x71C7656EC7ab88b098defB751B7401B5f6d8976F''),
           (''nonce'', JNum 0),
           (''session'', JStr ''1b4e28ba-2fa1-11d2-883f-0016d3cca427''),
           (''timestamp'', JStr ''2023-11-14T22:13:20.000Z''),
           (''digest'', JStr ''c5d2460186f7233c927e7db2dcc703c0e500b653ca82273b7bfad8045d85a470''),
           (''signature'', JStr ''c5d2460186f7233c927e7db2dcc703c0e500b653ca82273b7bfad8045d85a4705f6d8976f71c7656ec7ab88b098defb751b7401b5f6d8976f71c7656ec7ab88b1b'')]"

definition exampleRequest :: jsval where
  "exampleRequest =
     JObj [(''params'', JObj [(''state'', JStr ''CA''), (''_deProof'', exampleDeProof)]),
           (''id'', JNum 1), (''method'', JStr ''tools/call'')]"


definition exampleStore :: nonce_store where
  "exampleStore = incrementAndSetNonce Map.empty exampleAddress exampleSession 0"


text \<open>
  Variants of the request: a timestamp 61 seconds old, a proof without fields, a proof
  without nonce, a proof without timestamp, the address in lower case, the recovery id 29
  at the end of the signature, the digest in upper case, the digest with the prefix, a
  timestamp that is no date.
\<close>

definition exampleStaleRequest :: jsval where
  "exampleStaleRequest =
     JObj [(''params'',
            JObj [(''state'', JStr ''CA''),
                  (''_deProof'',
                   JObj [(''signerAddress'', JStr ''0x71C7656EC7ab88b098defB751B7401B5f6d8976F''),
                         (''nonce'', JNum 0),
                         (''session'', JStr ''1b4e28ba-2fa1-11d2-883f-0016d3cca427''),
                         (''timestamp'', JStr ''2023-11-14T22:12:19.000Z''),
                         (''digest'', JStr ''c5d2460186f7233c927e7db2dcc703c0e500b653ca82273b7bfad8045d85a470''),
                         (''signature'', JStr ''c5d2460186f7233c927e7db2dcc703c0e500b653ca82273b7bfad8045d85a4705f6d8976f71c7656ec7ab88b098defb751b7401b5f6d8976f71c7656ec7ab88b1b'')])])]"

definition exampleEmptyProofRequest :: jsval where
  "exampleEmptyProofRequest =
     JObj [(''params'', JObj [(''state'', JStr ''CA''), (''_deProof'', JObj [])])]"

definition exampleNoNonceRequest :: jsval where
  "exampleNoNonceRequest =
     JObj [(''params'',
            JObj [(''state'', JStr ''CA''),
                  (''_deProof'',
                   JObj [(''signerAddress'', JStr ''0x71C7656EC7ab88b098defB751B7401B5f6d8976F''),
                         (''session'', JStr ''1b4e28ba-2fa1-11d2-883f-0016d3cca427''),
                         (''timestamp'', JStr ''2023-11-14T22:13:20.000Z''),
                         (''digest'', JStr ''c5d2460186f7233c927e7db2dcc703c0e500b653ca82273b7bfad8045d85a470''),
                         (''signature'', JStr ''c5d2460186f7233c927e7db2dcc703c0e500b653ca82273b7bfad8045d85a4705f6d8976f71c7656ec7ab88b098defb751b7401b5f6d8976f71c7656ec7ab88b1b'')])])]"

definition exampleNoTimestampRequest :: jsval where
  "exampleNoTimestampRequest =
     JObj [(''params'',
            JObj [(''state'', JStr ''CA''),
                  (''_deProof'',
                   JObj [(''signerAddress'', JStr ''0x71C7656EC7ab88b098defB751B7401B5f6d8976F''),
                         (''nonce'', JNum 0),
                         (''session'', JStr ''1b4e28ba-2fa1-11d2-883f-0016d3cca427''),
                         (''digest'', JStr ''c5d2460186f7233c927e7db2dcc703c0e500b653ca82273b7bfad8045d85a470''),
                         (''signature'', JStr ''c5d2460186f7233c927e7db2dcc703c0e500b653ca82273b7bfad8045d85a4705f6d8976f71c7656ec7ab88b098defb751b7401b5f6d8976f71c7656ec7ab88b1b'')])])]"


definition exampleOddRecoveryDeProof :: jsval where
  "exampleOddRecoveryDeProof =
     JObj [(''signerAddress'', JStr ''0x71C7656EC7ab88b098defB751B7401B5f6d8976F''),
           (''nonce'', JNum 0),
           (''session'', JStr ''1b4e28ba-2fa1-11d2-883f-0016d3cca427''),
           (''timestamp'', JStr ''2023-11-14T22:13:20.000Z''),
           (''digest'', JStr ''c5d2460186f7233c927e7db2dcc703c0e500b653ca82273b7bfad8045d85a470''),
           (''signature'', JStr ''c5d2460186f7233c927e7db2dcc703c0e500b653ca82273b7bfad8045d85a4705f6d8976f71c7656ec7ab88b098defb751b7401b5f6d8976f71c7656ec7ab88b1d'')]"

definition exampleOddRecoveryRequest :: jsval where
  "exampleOddRecoveryRequest =
     JObj [(''params'', JObj [(''state'', JStr ''CA''), (''_deProof'', exampleOddRecoveryDeProof)])]"

definition exampleUpperDeProof :: jsval where
  "exampleUpperDeProof =
     JObj [(''signerAddress'', JStr ''0x71C7656EC7ab88b098defB751B7401B5f6d8976F''),
           (''nonce'', JNum 0),
           (''session'', JStr ''1b4e28ba-2fa1-11d2-883f-0016d3cca427''),
           (''timestamp'', JStr ''2023-11-14T22:13:20.000Z''),
           (''digest'', JStr ''C5D2460186F7233C927E7DB2DCC703C0E500B653CA82273B7BFAD8045D85A470''),
           (''signature'', JStr ''c5d2460186f7233c927e7db2dcc703c0e500b653ca82273b7bfad8045d85a4705f6d8976f71c7656ec7ab88b098defb751b7401b5f6d8976f71c7656ec7ab88b1b'')]"

definition examplePrefixedDeProof :: jsval where
  "examplePrefixedDeProof =
     JObj [(''signerAddress'', JStr ''0x71C7656EC7ab88b098defB751B7401B5f6d8976F''),
           (''nonce'', JNum 0),
           (''session'', JStr ''1b4e28ba-2fa1-11d2-883f-0016d3cca427''),
           (''timestamp'', JStr ''2023-11-14T22:13:20.000Z''),
           (''digest'', JStr ''0xc5d2460186f7233c927e7db2dcc703c0e500b653ca82273b7bfad8045d85a470''),
           (''signature'', JStr ''c5d2460186f7233c927e7db2dcc703c0e500b653ca82273b7bfad8045d85a4705f6d8976f71c7656ec7ab88b098defb751b7401b5f6d8976f71c7656ec7ab88b1b'')]"

definition exampleBadTimestampDeProof :: jsval where
  "exampleBadTimestampDeProof =
     JObj [(''signerAddress'', JStr ''0x71C7656EC7ab88b098defB751B7401B5f6d8976F''),
           (''nonce'', JNum 0),
           (''session'', JStr ''1b4e28ba-2fa1-11d2-883f-0016d3cca427''),
           (''timestamp'', JStr ''not-a-timestamp''),
           (''digest'', JStr ''c5d2460186f7233c927e7db2dcc703c0e500b653ca82273b7bfad8045d85a470''),
           (''signature'', JStr ''c5d2460186f7233c927e7db2dcc703c0e500b653ca82273b7bfad8045d85a4705f6d8976f71c7656ec7ab88b098defb751b7401b5f6d8976f71c7656ec7ab88b1b'')]"

definition exampleBadTimestampRequest :: jsval where
  "exampleBadTimestampRequest =
     JObj [(''params'', JObj [(''state'', JStr ''CA''), (''_deProof'', exampleBadTimestampDeProof)])]"

text \<open>Two values that differ in the order of their keys only.\<close>

definition exampleTree :: jsval where
  "exampleTree =
     JObj [(''b'', JNum 1),
           (''a'', JObj [(''y'', JStr ''q''), (''x'', JArr [JNull, JBool True])])]"

definition exampleReorderedTree :: jsval where
  "exampleReorderedTree =
     JObj [(''a'', JObj [(''x'', JArr [JNull, JBool True]), (''y'', JStr ''q'')]),
           (''b'', JNum 1)]"

section \<open>Facts about the stores and the generator\<close>



lemma proto_inherited: "''__proto__'' \<in> set inheritedNames"
  by (simp add: inheritedNames_def)



lemma dictGet_dictSet_other: "key' \<noteq> key \<Longrightarrow> dictGet (dictSet obj key v) key' = dictGet obj key'"
  by (simp add: dictGet_def dictSet_def)

lemma dictGet_dictSet_same:
  "dictGet (dictSet obj key v) key = (if key = ''__proto__'' then NInherited key else v)"
  by (simp add: dictGet_def dictSet_def)

lemma dictGet_empty:
  "dictGet Map.empty key = (if key \<in> set inheritedNames then NInherited key else NUndefined)"
  using proto_inherited by (auto simp: dictGet_def)

lemma getExpectedNonce_empty: "getExpectedNonce Map.empty a s = NNum 0"
  by (simp add: getExpectedNonce_def)




lemma incrementAndSetNonce_same:
  "getExpectedNonce (incrementAndSetNonce st a s n) a s =
     (if s = ''__proto__'' then NInherited s else NNum (plusOne n))"
  by (simp add: incrementAndSetNonce_def getExpectedNonce_def Let_def dictGet_dictSet_same)

lemma incrementAndSetNonce_session:
  assumes "s' \<noteq> s" and "s' \<notin> set inheritedNames"
  shows "getExpectedNonce (incrementAndSetNonce st a s n) a s' = getExpectedNonce st a s'"
  using assms
  by (cases "st a")
     (simp_all add: incrementAndSetNonce_def getExpectedNonce_def Let_def dictGet_dictSet_other
        dictGet_empty)











lemma generateDeProofs_length: "length (generateDeProofs st calls) = length calls"
  by (induction calls arbitrary: st) (auto split: prod.splits)


section \<open>Accepted and rejected attempts\<close>


lemma nonceComparison_Inr:
  "nonceComparison v e = Inr n \<longleftrightarrow> v = JNum n \<and> e = NNum n"
  by (auto simp: nonceComparison_def split: nonce_value.splits)

lemma nonceComparison_Inl:
  "nonceComparison v e = Inl r \<longleftrightarrow> r = NonceMismatch \<and> \<not> (\<exists>n. v = JNum n \<and> e = NNum n)"
  by (auto simp: nonceComparison_def split: nonce_value.splits)

lemma nonceValidation_Inr:
  "nonceValidation st a s v = Inr n \<longleftrightarrow> v = JNum n \<and> getExpectedNonce st a s = NNum n"
  by (simp add: nonceValidation_def Let_def nonceComparison_Inr)

lemma nonceValidation_Inl:
  "nonceValidation st a s v = Inl r \<longleftrightarrow>
     r = NonceMismatch \<and> \<not> (\<exists>n. v = JNum n \<and> getExpectedNonce st a s = NNum n)"
  by (simp add: nonceValidation_def Let_def nonceComparison_Inl)

lemma nonceValidation_replay:
  "getExpectedNonce st a s \<noteq> NNum n \<Longrightarrow> nonceValidation st a s (JNum n) = Inl NonceMismatch"
  by (simp add: nonceValidation_Inl)

lemma validateDeProof_accepted:
  assumes "validateDeProof rt request st = (None, st')"
  shows "\<exists>params deProof signerAddress session nonce clientDigest.
     getProp request ''params'' = Inr params \<and> getProp params ''_deProof'' = Inr deProof \<and>
     truthy deProof \<and>
     asString (propOf deProof ''signerAddress'') = Some signerAddress \<and>
     asString (propOf deProof ''session'') = Some session \<and>
     convertsToString (propOf deProof ''nonce'') \<and>
     timestampValidation rt (propOf deProof ''timestamp'') = None \<and>
     nonceValidation st signerAddress session (propOf deProof ''nonce'') = Inr nonce \<and>
     digestValidation rt params deProof = Inr clientDigest \<and>
     signatureValidation rt deProof signerAddress clientDigest = None \<and>
     st' = incrementAndSetNonce st signerAddress session nonce"
  using assms
  by (auto simp: validateDeProof_def split: sum.splits option.splits if_splits)

lemma validateDeProof_rejected:
  "validateDeProof rt request st = (Some r, st') \<Longrightarrow> st' = st"
  by (auto simp: validateDeProof_def split: sum.splits option.splits if_splits)



lemma validateDeProofs_Cons:
  "validateDeProofs st ((rt, request) # attempts) =
     (fst (validateDeProof rt request st) # fst (validateDeProofs (snd (validateDeProof rt request st)) attempts),
      snd (validateDeProofs (snd (validateDeProof rt request st)) attempts))"
  by (simp split: prod.splits)

lemma validateDeProofs_length: "length (fst (validateDeProofs st attempts)) = length attempts"
  by (induction attempts arbitrary: st) (auto simp: validateDeProofs_Cons simp del: validateDeProofs.simps(2))





section \<open>A call and its two parts\<close>

lemma validateDeProof_parts:
  "validateDeProof rt request st =
     (case validateDeProof_untilAwait rt request st of
        Inl rejected \<Rightarrow> (Some rejected, st)
      | Inr suspended \<Rightarrow> validateDeProof_afterAwait rt suspended st)"
  by (auto simp: validateDeProof_def validateDeProof_untilAwait_def validateDeProof_afterAwait_def
        nonceValidation_def Let_def split: sum.splits option.splits)

section \<open>The example request from generation to acceptance\<close>

lemmas js_defs =
  objGet_def objAssign_def objDelete_def objSpread_def ownPropertyKeys_def isArrayIndex_def isDigit_def
  decimalValue_def getProp_def startsWith_def strip0x_def add0x_def toLowerCase_def
  toLowerChar_def hexDigitValue_def numberToString_def quoteJSONString_def quoteJSONChar_def
  canonicalStringify_def validator_canonicalStringify_def

lemmas example_defs =
  exampleRuntime_def exampleWallet_def exampleAddress_def exampleKeyMark_def exampleKeccak_def
  exampleSignMessage_def exampleVerifyMessage_def exampleDeProof_def exampleRequest_def
  exampleSession_def hexOfByte_def

lemmas stage_defs =
  timestampValidation_def TIME_TOLERANCE_SECONDS_def nonceValidation_def nonceComparison_def
  dataToVerify_def digestValidation_def signatureValidation_def getExpectedNonce_def

lemmas store_defs =
  getAndIncNonce_def dictGet_def dictSet_def inheritedNames_def incrementAndSetNonce_def plusOne_def

lemma example_generated:
  "fst (generateDeProof exampleRuntime (JObj [(''state'', JStr ''CA'')]) exampleWallet None Map.empty)
   = Inr (DeProof exampleAddress (NNum 0) exampleSession ''2023-11-14T22:13:20.000Z''
            ''c5d2460186f7233c927e7db2dcc703c0e500b653ca82273b7bfad8045d85a470''
            ''c5d2460186f7233c927e7db2dcc703c0e500b653ca82273b7bfad8045d85a4705f6d8976f71c7656ec7ab88b098defb751b7401b5f6d8976f71c7656ec7ab88b1b'')"
  "deProofObject (DeProof exampleAddress (NNum 0) exampleSession ''2023-11-14T22:13:20.000Z''
            ''c5d2460186f7233c927e7db2dcc703c0e500b653ca82273b7bfad8045d85a470''
            ''c5d2460186f7233c927e7db2dcc703c0e500b653ca82273b7bfad8045d85a4705f6d8976f71c7656ec7ab88b098defb751b7401b5f6d8976f71c7656ec7ab88b1b'')
   = exampleDeProof"
  by (simp_all add: generateDeProof_def store_defs Let_def js_defs example_defs)

lemma example_dataToVerify:
  "dataToVerify (JObj [(''state'', JStr ''CA''), (''_deProof'', exampleDeProof)]) exampleDeProof
   = JObj [(''params'', JObj [(''state'', JStr ''CA'')]), (''nonce'', JNum 0),
           (''session'', JStr exampleSession), (''timestamp'', JStr ''2023-11-14T22:13:20.000Z'')]"
  by (simp add: dataToVerify_def js_defs exampleDeProof_def exampleSession_def)

lemma example_digest:
  "digestValidation exampleRuntime (JObj [(''state'', JStr ''CA''), (''_deProof'', exampleDeProof)]) exampleDeProof
   = Inr ''c5d2460186f7233c927e7db2dcc703c0e500b653ca82273b7bfad8045d85a470''"
  unfolding digestValidation_def example_dataToVerify
  by (simp add: Let_def js_defs example_defs)

lemma example_signature:
  "signatureValidation exampleRuntime exampleDeProof exampleAddress
     ''c5d2460186f7233c927e7db2dcc703c0e500b653ca82273b7bfad8045d85a470'' = None"
  by (simp add: signatureValidation_def Let_def js_defs example_defs)

lemma example_fields:
  "getProp exampleRequest ''params'' = Inr (JObj [(''state'', JStr ''CA''), (''_deProof'', exampleDeProof)])"
  "getProp (JObj [(''state'', JStr ''CA''), (''_deProof'', exampleDeProof)]) ''_deProof'' = Inr exampleDeProof"
  "truthy exampleDeProof"
  "asString (propOf exampleDeProof ''signerAddress'') = Some exampleAddress"
  "asString (propOf exampleDeProof ''session'') = Some exampleSession"
  "propOf exampleDeProof ''nonce'' = JNum 0"
  "propOf exampleDeProof ''timestamp'' = JStr ''2023-11-14T22:13:20.000Z''"
  "convertsToString (propOf exampleDeProof ''nonce'')"
  by (simp_all add: exampleRequest_def exampleDeProof_def getProp_def objGet_def
        exampleAddress_def exampleSession_def)

lemma example_timestamp:
  "timestampValidation exampleRuntime (JStr ''2023-11-14T22:13:20.000Z'') = None"
  by (simp add: timestampValidation_def TIME_TOLERANCE_SECONDS_def exampleRuntime_def)

lemma example_accepted:
  "validateDeProof exampleRuntime exampleRequest Map.empty
   = (None, incrementAndSetNonce Map.empty exampleAddress exampleSession 0)"
  by (simp add: validateDeProof_def example_fields example_timestamp nonceValidation_def
        nonceComparison_def getExpectedNonce_def example_digest example_signature)

section \<open>Requests that come through stage 1\<close>

lemma validateDeProof_stage1:
  "passesStage1 request params deProof a s \<Longrightarrow>
   validateDeProof rt request st =
     (case timestampValidation rt (propOf deProof ''timestamp'') of
        Some rejected \<Rightarrow> (Some rejected, st)
      | None \<Rightarrow>
     (case nonceValidation st a s (propOf deProof ''nonce'') of
        Inl rejected \<Rightarrow> (Some rejected, st)
      | Inr nonce \<Rightarrow>
     (case digestValidation rt params deProof of
        Inl rejected \<Rightarrow> (Some rejected, st)
      | Inr clientDigest \<Rightarrow>
     (case signatureValidation rt deProof a clientDigest of
        Some rejected \<Rightarrow> (Some rejected, st)
      | None \<Rightarrow> (None, incrementAndSetNonce st a s nonce)))))"
  by (simp add: validateDeProof_def passesStage1_def)

lemma asString_Some: "asString v = Some s \<longleftrightarrow> v = JStr s"
  by (cases v) auto

lemma asNumber_Some: "asNumber v = Some n \<longleftrightarrow> v = JNum n"
  by (cases v) auto

lemma propOf_JStr: "propOf v key = JStr s \<Longrightarrow> \<exists>kvs. v = JObj kvs"
  by (cases v) auto

lemma propOf_JObj: "propOf v key = JObj kvs \<Longrightarrow> \<exists>kvs'. v = JObj kvs'"
  by (cases v) auto

lemma presentedTriple_stage1:
  assumes "presentedTriple request = Some (a, s, n)"
  shows "passesStage1 request (propOf request ''params'') (deProofOf request) a s
         \<and> propOf (deProofOf request) ''nonce'' = JNum n"
proof -
  from assms have f: "propOf (deProofOf request) ''signerAddress'' = JStr a"
    "propOf (deProofOf request) ''session'' = JStr s"
    "propOf (deProofOf request) ''nonce'' = JNum n"
    by (auto simp: presentedTriple_def asString_Some asNumber_Some split: option.splits)
  from propOf_JStr [OF f(1)] obtain kvs where d: "deProofOf request = JObj kvs" by blast
  then have "propOf (propOf request ''params'') ''_deProof'' = JObj kvs"
    by (simp add: deProofOf_def)
  from propOf_JObj [OF this] obtain kvs' where p: "propOf request ''params'' = JObj kvs'" by blast
  from propOf_JObj [OF this] obtain kvs'' where r: "request = JObj kvs''" by blast
  have "getProp request ''params'' = Inr (propOf request ''params'')"
    by (simp add: getProp_def r)
  moreover have "getProp (propOf request ''params'') ''_deProof'' = Inr (deProofOf request)"
    unfolding deProofOf_def by (simp add: getProp_def p)
  moreover have "truthy (deProofOf request)" by (simp add: d)
  ultimately show ?thesis
    using f by (simp add: passesStage1_def)
qed

lemma replay_rejected:
  assumes "presentedTriple request = Some (a, s, n)" and "getExpectedNonce st a s \<noteq> NNum n"
  shows "fst (validateDeProof rt request st) \<noteq> None"
    and "timestampValidation rt (propOf (deProofOf request) ''timestamp'') = None \<Longrightarrow>
         validateDeProof rt request st = (Some NonceMismatch, st)"
proof -
  from presentedTriple_stage1 [OF assms(1)]
  have s1: "passesStage1 request (propOf request ''params'') (deProofOf request) a s"
    and nn: "propOf (deProofOf request) ''nonce'' = JNum n" by simp_all
  have nv: "nonceValidation st a s (JNum n) = Inl NonceMismatch"
    using assms(2) by (rule nonceValidation_replay)
  show "fst (validateDeProof rt request st) \<noteq> None"
    by (simp add: validateDeProof_stage1 [OF s1] nn nv split: option.splits)
  show "validateDeProof rt request st = (Some NonceMismatch, st)"
    if "timestampValidation rt (propOf (deProofOf request) ''timestamp'') = None"
    using that by (simp add: validateDeProof_stage1 [OF s1] nn nv)
qed

section \<open>The generator's nonces\<close>







section \<open>Addresses as keys\<close>



section \<open>Rejections and the store\<close>

text \<open>
  Claim C7. Whatever rejection a validation attempt returns, at the presence, timestamp,
  nonce, digest or signature stage or from the outer handler, the store after the call
  is the store before it. The store changes only when the attempt is accepted, and then
  stage 1 has found the proof with its address and session, the timestamp, nonce, digest
  and signature stages have all passed, and the new store is the old one advanced by
  \<^verbatim>\<open>incrementAndSetNonce\<close> for the validated nonce.
\<close>

theorem validateDeProof_rejection_keeps_store:
  "validateDeProof rt request st = (answer, st') \<Longrightarrow>
     (answer \<noteq> None \<longrightarrow> st' = st)
     \<and> (answer = None \<or> st' \<noteq> st \<longrightarrow>
          answer = None
          \<and> (\<exists>params deProof signerAddress session nonce clientDigest.
                passesStage1 request params deProof signerAddress session
                \<and> timestampValidation rt (propOf deProof ''timestamp'') = None
                \<and> nonceValidation st signerAddress session (propOf deProof ''nonce'') = Inr nonce
                \<and> digestValidation rt params deProof = Inr clientDigest
                \<and> signatureValidation rt deProof signerAddress clientDigest = None
                \<and> st' = incrementAndSetNonce st signerAddress session nonce))"
proof (cases answer)
  case None
  assume "validateDeProof rt request st = (answer, st')"
  with None have "validateDeProof rt request st = (None, st')" by simp
  from validateDeProof_accepted [OF this] None show ?thesis
    unfolding passesStage1_def by blast
next
  case (Some r)
  assume "validateDeProof rt request st = (answer, st')"
  with Some have "validateDeProof rt request st = (Some r, st')" by simp
  from validateDeProof_rejected [OF this] Some show ?thesis by simp
qed

lemma example_presented:
  "presentedTriple exampleRequest = Some (exampleAddress, exampleSession, 0)"
  by (simp add: presentedTriple_def deProofOf_def exampleRequest_def exampleDeProof_def objGet_def
        exampleAddress_def exampleSession_def)

lemma example_replayed:
  "validateDeProof exampleRuntime exampleRequest exampleStore = (Some NonceMismatch, exampleStore)"
proof -
  have "getExpectedNonce exampleStore exampleAddress exampleSession = NNum 1"
    by (simp add: exampleStore_def incrementAndSetNonce_same exampleSession_def plusOne_def)
  then have "getExpectedNonce exampleStore exampleAddress exampleSession \<noteq> NNum 0" by simp
  from replay_rejected(2) [OF example_presented this, of exampleRuntime]
  show ?thesis
    by (simp add: deProofOf_def exampleRequest_def objGet_def example_fields example_timestamp)
qed

theorem validateDeProof_rejection_keeps_store_witness:
  "validateDeProof exampleRuntime exampleRequest Map.empty = (None, exampleStore)
   \<and> exampleStore \<noteq> Map.empty
   \<and> validateDeProof exampleRuntime exampleRequest exampleStore = (Some NonceMismatch, exampleStore)
   \<and> (\<exists>params deProof clientDigest.
         passesStage1 exampleRequest params deProof exampleAddress exampleSession
         \<and> digestValidation exampleRuntime params deProof = Inr clientDigest
         \<and> signatureValidation exampleRuntime deProof exampleAddress clientDigest = None)"
proof -
  have a: "validateDeProof exampleRuntime exampleRequest Map.empty = (None, exampleStore)"
    by (simp add: example_accepted exampleStore_def)
  have ne: "exampleStore \<noteq> Map.empty"
  proof
    assume "exampleStore = Map.empty"
    then have "getExpectedNonce exampleStore exampleAddress exampleSession
             = getExpectedNonce Map.empty exampleAddress exampleSession" by simp
    then show False
      by (simp add: exampleStore_def incrementAndSetNonce_same getExpectedNonce_empty
            exampleSession_def plusOne_def)
  qed
  from validateDeProof_rejection_keeps_store [OF a] obtain params deProof a s n clientDigest where
    s1: "passesStage1 exampleRequest params deProof a s"
    and d: "digestValidation exampleRuntime params deProof = Inr clientDigest"
    and sg: "signatureValidation exampleRuntime deProof a clientDigest = None"
    by blast
  from s1 have "a = exampleAddress" "s = exampleSession"
    by (auto simp: passesStage1_def example_fields)
  with s1 d sg have "\<exists>params deProof clientDigest.
         passesStage1 exampleRequest params deProof exampleAddress exampleSession
         \<and> digestValidation exampleRuntime params deProof = Inr clientDigest
         \<and> signatureValidation exampleRuntime deProof exampleAddress clientDigest = None"
    by blast
  with a ne example_replayed validateDeProof_rejection_keeps_store [OF example_replayed]
  show ?thesis by simp
qed

section \<open>Replay protection\<close>







section \<open>What each stage can answer\<close>

lemma timestampValidation_Some:
  "timestampValidation rt ts = Some r \<Longrightarrow> r = TimestampOutOfRange \<or> r = TimestampInvalidFormat"
  by (auto simp: timestampValidation_def Let_def split: option.splits if_splits)

lemma timestampValidation_format:
  "timestampValidation rt ts = Some TimestampInvalidFormat
   \<longleftrightarrow> dateGetTime rt ts = None \<and> \<not> convertsToString ts"
  by (auto simp: timestampValidation_def Let_def split: option.splits if_splits)

lemma digestValidation_Inl:
  "digestValidation rt params deProof = Inl r \<Longrightarrow> r = ValidationException \<or> r = DigestMismatch"
  by (auto simp: digestValidation_def Let_def split: option.splits if_splits)

lemma signatureValidation_Some:
  "signatureValidation rt deProof a d = Some r \<Longrightarrow> r = SignatureException \<or> r = SignatureAddressMismatch"
  by (auto simp: signatureValidation_def Let_def split: option.splits sum.splits if_splits)

lemma validateDeProof_answers:
  assumes "validateDeProof rt request st = (Some r, st')"
  shows "r = MissingDeProof \<or> r = TimestampOutOfRange \<or> r = TimestampInvalidFormat
         \<or> r = NonceMismatch \<or> r = DigestMismatch
         \<or> r = SignatureAddressMismatch \<or> r = SignatureException \<or> r = ValidationException"
  using assms
  by (auto simp: validateDeProof_def nonceValidation_Inl
           split: sum.splits option.splits if_splits
           dest: timestampValidation_Some digestValidation_Inl signatureValidation_Some)

text \<open>
  The rejection \<open>TimestampInvalidFormat\<close> is the answer only for a timestamp that does not
  convert to a primitive: an object with a property \<^verbatim>\<open>toString\<close>, or an array that holds
  one. It is the answer for no timestamp that is a string.
\<close>

lemma validateDeProof_TimestampInvalidFormat:
  assumes "passesStage1 request params deProof a s"
  shows "fst (validateDeProof rt request st) = Some TimestampInvalidFormat
         \<longleftrightarrow> dateGetTime rt (propOf deProof ''timestamp'') = None
             \<and> \<not> convertsToString (propOf deProof ''timestamp'')"
proof -
  have "fst (validateDeProof rt request st) = Some TimestampInvalidFormat
        \<longleftrightarrow> timestampValidation rt (propOf deProof ''timestamp'') = Some TimestampInvalidFormat"
    by (auto simp: validateDeProof_stage1 [OF assms] nonceValidation_Inl
             split: sum.splits option.splits
             dest: digestValidation_Inl signatureValidation_Some)
  then show ?thesis by (simp add: timestampValidation_format)
qed

lemma validateDeProof_string_timestamp:
  assumes "passesStage1 request params deProof a s"
    and "propOf deProof ''timestamp'' = JStr text"
  shows "fst (validateDeProof rt request st) \<noteq> Some TimestampInvalidFormat"
  by (simp add: validateDeProof_TimestampInvalidFormat [OF assms(1)] assms(2))

lemma validateDeProof_after_timestamp:
  assumes "passesStage1 request params deProof a s"
    and "timestampValidation rt (propOf deProof ''timestamp'') = None"
  shows "fst (validateDeProof rt request st) \<noteq> Some TimestampOutOfRange"
  using assms(2)
  by (auto simp: validateDeProof_stage1 [OF assms(1)] nonceValidation_Inl
           split: sum.splits option.splits
           dest: digestValidation_Inl signatureValidation_Some)

section \<open>The timestamp window\<close>

text \<open>
  Claim C6. With the tolerance of 60 seconds: when the proof's timestamp reads as the
  instant \<open>t\<close> (in milliseconds), the timestamp stage passes if and only if \<open>t\<close> is at
  most 60000 ms from the validator's clock, in either direction and the bounds included.
  A proof further away is rejected with \<open>TimestampOutOfRange\<close> (code \<open>-32001\<close>), which
  is then the answer of the validator for every request that came through stage 1, and
  the store is unchanged. A request inside the window is not answered with a timestamp
  rejection.
\<close>

theorem timestamp_window:
  "dateGetTime rt (propOf deProof ''timestamp'') = Some t \<Longrightarrow>
     (timestampValidation rt (propOf deProof ''timestamp'') = None) = (\<bar>dateNow rt - t\<bar> \<le> 60 * 1000)
     \<and> (timestampValidation rt (propOf deProof ''timestamp'') = Some TimestampOutOfRange)
         = (60 * 1000 < \<bar>dateNow rt - t\<bar>)
     \<and> code TimestampOutOfRange = - 32001
     \<and> (passesStage1 request params deProof a s \<longrightarrow>
          (60 * 1000 < \<bar>dateNow rt - t\<bar> \<longrightarrow>
             validateDeProof rt request st = (Some TimestampOutOfRange, st))
          \<and> (\<bar>dateNow rt - t\<bar> \<le> 60 * 1000 \<longrightarrow>
             fst (validateDeProof rt request st) \<noteq> Some TimestampOutOfRange
             \<and> fst (validateDeProof rt request st) \<noteq> Some TimestampInvalidFormat))"
proof -
  assume t: "dateGetTime rt (propOf deProof ''timestamp'') = Some t"
  have "(60 < rat_of_int \<bar>dateNow rt - t\<bar> / 1000) = (60 * 1000 < \<bar>dateNow rt - t\<bar>)"
  proof -
    have "(60 < rat_of_int \<bar>dateNow rt - t\<bar> / 1000) = (rat_of_int (60 * 1000) < rat_of_int \<bar>dateNow rt - t\<bar>)"
      by (simp add: field_simps)
    also have "\<dots> = (60 * 1000 < \<bar>dateNow rt - t\<bar>)"
      by (simp only: of_int_less_iff)
    finally show ?thesis .
  qed
  then have pass: "(timestampValidation rt (propOf deProof ''timestamp'') = None) = (\<bar>dateNow rt - t\<bar> \<le> 60 * 1000)"
    and rej: "(timestampValidation rt (propOf deProof ''timestamp'') = Some TimestampOutOfRange)
         = (60 * 1000 < \<bar>dateNow rt - t\<bar>)"
    using t by (auto simp: timestampValidation_def TIME_TOLERANCE_SECONDS_def Let_def)
  have "validateDeProof rt request st = (Some TimestampOutOfRange, st)"
    if "passesStage1 request params deProof a s" "60 * 1000 < \<bar>dateNow rt - t\<bar>"
    using that rej by (simp add: validateDeProof_stage1 [OF that(1)])
  moreover have "fst (validateDeProof rt request st) \<noteq> Some TimestampOutOfRange"
    if "passesStage1 request params deProof a s" "\<bar>dateNow rt - t\<bar> \<le> 60 * 1000"
    using validateDeProof_after_timestamp [OF that(1)] that(2) pass by simp
  moreover have "fst (validateDeProof rt request st) \<noteq> Some TimestampInvalidFormat"
    if "passesStage1 request params deProof a s"
    using t by (simp add: validateDeProof_TimestampInvalidFormat [OF that])
  ultimately show ?thesis
    using pass rej by simp
qed

theorem timestamp_window_witness:
  "timestampValidation exampleRuntime (JStr ''2023-11-14T22:12:20.000Z'') = None
   \<and> timestampValidation exampleRuntime (JStr ''2023-11-14T22:14:20.000Z'') = None
   \<and> timestampValidation exampleRuntime (JStr ''2023-11-14T22:12:19.000Z'') = Some TimestampOutOfRange
   \<and> timestampValidation exampleRuntime (JStr ''2023-11-14T22:14:21.000Z'') = Some TimestampOutOfRange
   \<and> validateDeProof exampleRuntime exampleStaleRequest Map.empty = (Some TimestampOutOfRange, Map.empty)"
proof -
  have now: "dateNow exampleRuntime = 1700000000000"
    by (simp add: exampleRuntime_def)
  have g: "dateGetTime exampleRuntime (propOf (JObj [(''timestamp'', JStr ''2023-11-14T22:12:20.000Z'')]) ''timestamp'') = Some 1699999940000"
    "dateGetTime exampleRuntime (propOf (JObj [(''timestamp'', JStr ''2023-11-14T22:14:20.000Z'')]) ''timestamp'') = Some 1700000060000"
    "dateGetTime exampleRuntime (propOf (JObj [(''timestamp'', JStr ''2023-11-14T22:12:19.000Z'')]) ''timestamp'') = Some 1699999939000"
    "dateGetTime exampleRuntime (propOf (JObj [(''timestamp'', JStr ''2023-11-14T22:14:21.000Z'')]) ''timestamp'') = Some 1700000061000"
    by (simp_all add: exampleRuntime_def objGet_def)
  let ?stale = "JObj [(''signerAddress'', JStr ''0x71C7656EC7ab88b098defB751B7401B5f6d8976F''),
                         (''nonce'', JNum 0),
                         (''session'', JStr ''1b4e28ba-2fa1-11d2-883f-0016d3cca427''),
                         (''timestamp'', JStr ''2023-11-14T22:12:19.000Z''),
                         (''digest'', JStr ''c5d2460186f7233c927e7db2dcc703c0e500b653ca82273b7bfad8045d85a470''),
                         (''signature'', JStr ''c5d2460186f7233c927e7db2dcc703c0e500b653ca82273b7bfad8045d85a4705f6d8976f71c7656ec7ab88b098defb751b7401b5f6d8976f71c7656ec7ab88b1b'')]"
  have s1: "passesStage1 exampleStaleRequest (JObj [(''state'', JStr ''CA''), (''_deProof'', ?stale)])
              ?stale exampleAddress exampleSession"
    by (simp add: passesStage1_def exampleStaleRequest_def getProp_def objGet_def
          exampleAddress_def exampleSession_def)
  have gs: "dateGetTime exampleRuntime (propOf ?stale ''timestamp'') = Some 1699999939000"
    by (simp add: exampleRuntime_def objGet_def)
  have "timestampValidation exampleRuntime (JStr ''2023-11-14T22:12:20.000Z'') = None"
    using timestamp_window [OF g(1)] by (simp add: now objGet_def)
  moreover have "timestampValidation exampleRuntime (JStr ''2023-11-14T22:14:20.000Z'') = None"
    using timestamp_window [OF g(2)] by (simp add: now objGet_def)
  moreover have "timestampValidation exampleRuntime (JStr ''2023-11-14T22:12:19.000Z'') = Some TimestampOutOfRange"
    using timestamp_window [OF g(3)] by (simp add: now objGet_def)
  moreover have "timestampValidation exampleRuntime (JStr ''2023-11-14T22:14:21.000Z'') = Some TimestampOutOfRange"
    using timestamp_window [OF g(4)] by (simp add: now objGet_def)
  moreover have "validateDeProof exampleRuntime exampleStaleRequest Map.empty = (Some TimestampOutOfRange, Map.empty)"
    using timestamp_window [OF gs, of exampleStaleRequest "JObj [(''state'', JStr ''CA''), (''_deProof'', ?stale)]"
      exampleAddress exampleSession Map.empty] s1
    by (simp add: now)
  ultimately show ?thesis by simp
qed

section \<open>The signature stage\<close>

text \<open>
  Claim C8, as the code has it. The signature stage recovers an address from the bytes
  of the declared digest and the signature (with \<^verbatim>\<open>0x\<close> put in front when it is missing)
  and compares it with the declared \<^verbatim>\<open>signerAddress\<close> after lower-casing both: equal
  lower-case forms pass, different ones are rejected with the address mismatch (code
  \<open>-32006\<close>). The stage checks neither the length of the signature nor its recovery id:
  it rejects with \<open>SignatureException\<close> (code \<open>-32007\<close>) exactly when the signature is
  not a string or the recovery of the library throws, and whatever address the library
  returns is compared. For a request that came through the first four stages the answer
  of the stage is the answer of the validator, and a rejection leaves the store as it
  was.
\<close>

theorem signature_stage:
  "(signatureValidation rt deProof signerAddress clientDigest = Some SignatureException)
     = (asString (propOf deProof ''signature'') = None
        \<or> (\<exists>signature error.
              asString (propOf deProof ''signature'') = Some signature
              \<and> verifyMessage rt (bufferFromHex clientDigest) (add0x signature) = Inl error))
   \<and> (asString (propOf deProof ''signature'') = Some signature \<longrightarrow>
        (\<forall>recoveredAddress.
             verifyMessage rt (bufferFromHex clientDigest) (add0x signature) = Inr recoveredAddress \<longrightarrow>
               (toLowerCase recoveredAddress = toLowerCase signerAddress \<longrightarrow>
                  signatureValidation rt deProof signerAddress clientDigest = None)
               \<and> (toLowerCase recoveredAddress \<noteq> toLowerCase signerAddress \<longrightarrow>
                  signatureValidation rt deProof signerAddress clientDigest = Some SignatureAddressMismatch)))
   \<and> code SignatureAddressMismatch = - 32006 \<and> code SignatureException = - 32007
   \<and> (passesStage1 request params deProof signerAddress session
        \<and> timestampValidation rt (propOf deProof ''timestamp'') = None
        \<and> nonceValidation st signerAddress session (propOf deProof ''nonce'') = Inr nonce
        \<and> digestValidation rt params deProof = Inr clientDigest \<longrightarrow>
        validateDeProof rt request st =
          (case signatureValidation rt deProof signerAddress clientDigest of
             Some rejected \<Rightarrow> (Some rejected, st)
           | None \<Rightarrow> (None, incrementAndSetNonce st signerAddress session nonce)))"
proof (intro conjI impI allI)
  show "(signatureValidation rt deProof signerAddress clientDigest = Some SignatureException)
     = (asString (propOf deProof ''signature'') = None
        \<or> (\<exists>signature error.
              asString (propOf deProof ''signature'') = Some signature
              \<and> verifyMessage rt (bufferFromHex clientDigest) (add0x signature) = Inl error))"
    by (auto simp: signatureValidation_def Let_def split: option.splits sum.splits)
next
  assume "passesStage1 request params deProof signerAddress session
        \<and> timestampValidation rt (propOf deProof ''timestamp'') = None
        \<and> nonceValidation st signerAddress session (propOf deProof ''nonce'') = Inr nonce
        \<and> digestValidation rt params deProof = Inr clientDigest"
  then show "validateDeProof rt request st =
          (case signatureValidation rt deProof signerAddress clientDigest of
             Some rejected \<Rightarrow> (Some rejected, st)
           | None \<Rightarrow> (None, incrementAndSetNonce st signerAddress session nonce))"
    using validateDeProof_stage1 [of request params deProof signerAddress session rt st] by simp
qed (simp_all add: signatureValidation_def)

theorem signature_stage_witness:
  "signatureValidation exampleRuntime exampleDeProof (toLowerCase exampleAddress)
     ''c5d2460186f7233c927e7db2dcc703c0e500b653ca82273b7bfad8045d85a470'' = None
   \<and> signatureValidation exampleRuntime exampleDeProof ''0x0000000000000000000000000000000000000000''
     ''c5d2460186f7233c927e7db2dcc703c0e500b653ca82273b7bfad8045d85a470'' = Some SignatureAddressMismatch
   \<and> signatureValidation exampleRuntime (JObj [(''signature'', JStr ''1b'')]) exampleAddress
     ''c5d2460186f7233c927e7db2dcc703c0e500b653ca82273b7bfad8045d85a470'' = Some SignatureException
   \<and> signatureValidation exampleRuntime (JObj [(''signature'', JNum 27)]) exampleAddress
     ''c5d2460186f7233c927e7db2dcc703c0e500b653ca82273b7bfad8045d85a470'' = Some SignatureException"
proof -
  let ?d = "''c5d2460186f7233c927e7db2dcc703c0e500b653ca82273b7bfad8045d85a470''"
  let ?sig = "''c5d2460186f7233c927e7db2dcc703c0e500b653ca82273b7bfad8045d85a4705f6d8976f71c7656ec7ab88b098defb751b7401b5f6d8976f71c7656ec7ab88b1b''"
  have s: "asString (propOf exampleDeProof ''signature'') = Some ?sig"
    by (simp add: exampleDeProof_def objGet_def)
  have v: "verifyMessage exampleRuntime (bufferFromHex ?d) (add0x ?sig) = Inr exampleAddress"
    by (simp add: js_defs example_defs)
  have l: "toLowerCase exampleAddress = toLowerCase (toLowerCase exampleAddress)"
    "toLowerCase exampleAddress \<noteq> toLowerCase ''0x0000000000000000000000000000000000000000''"
    by (simp_all add: exampleAddress_def toLowerCase_def toLowerChar_def)
  have s2: "asString (propOf (JObj [(''signature'', JStr ''1b'')]) ''signature'') = Some ''1b''"
    "asString (propOf (JObj [(''signature'', JNum 27)]) ''signature'') = None"
    by (simp_all add: objGet_def)
  have v2: "verifyMessage exampleRuntime (bufferFromHex ?d) (add0x ''1b'') = Inl LibraryError"
    by (simp add: js_defs example_defs)
  have "signatureValidation exampleRuntime exampleDeProof (toLowerCase exampleAddress) ?d = None"
    using signature_stage [where deProof = exampleDeProof and rt = exampleRuntime
        and signerAddress = "toLowerCase exampleAddress" and clientDigest = ?d and signature = ?sig]
      s v l(1) by simp
  moreover have "signatureValidation exampleRuntime exampleDeProof ''0x0000000000000000000000000000000000000000'' ?d
      = Some SignatureAddressMismatch"
    using signature_stage [where deProof = exampleDeProof and rt = exampleRuntime
        and signerAddress = "''0x0000000000000000000000000000000000000000''" and clientDigest = ?d
        and signature = ?sig]
      s v l(2) by simp
  moreover have "signatureValidation exampleRuntime (JObj [(''signature'', JStr ''1b'')]) exampleAddress ?d
      = Some SignatureException"
    using signature_stage [where deProof = "JObj [(''signature'', JStr ''1b'')]" and rt = exampleRuntime
        and signerAddress = exampleAddress and clientDigest = ?d and signature = "''1b''"]
      s2(1) v2 by simp
  moreover have "signatureValidation exampleRuntime (JObj [(''signature'', JNum 27)]) exampleAddress ?d
      = Some SignatureException"
    using signature_stage [where deProof = "JObj [(''signature'', JNum 27)]" and rt = exampleRuntime
        and signerAddress = exampleAddress and clientDigest = ?d]
      s2(2) by simp
  ultimately show ?thesis by simp
qed

lemma example_odd_recovery_signature:
  "signatureValidation exampleLenientRuntime exampleOddRecoveryDeProof exampleAddress
     ''c5d2460186f7233c927e7db2dcc703c0e500b653ca82273b7bfad8045d85a470'' = None"
  by (simp add: signatureValidation_def Let_def js_defs example_defs exampleLenientRuntime_def
        exampleLenientVerifyMessage_def exampleOddRecoveryDeProof_def)

lemma example_odd_recovery_digest:
  "digestValidation exampleLenientRuntime
     (JObj [(''state'', JStr ''CA''), (''_deProof'', exampleOddRecoveryDeProof)])
     exampleOddRecoveryDeProof = Inr ''c5d2460186f7233c927e7db2dcc703c0e500b653ca82273b7bfad8045d85a470''"
  unfolding digestValidation_def dataToVerify_def
  by (simp add: Let_def js_defs example_defs exampleLenientRuntime_def exampleOddRecoveryDeProof_def)

text \<open>
  Claim C8 as stated fails where the recovery of the library is lenient, as the one of
  \<^verbatim>\<open>ethers\<close> 5 is. The signature here ends in the recovery id 29, which is neither 27 nor
  28; the library reads it as 27 and returns the address of the signer. The stage passes
  and the request is accepted; the answer is not \<open>SignatureException\<close>.
\<close>

theorem signature_stage_counterexample:
  "asString (propOf exampleOddRecoveryDeProof ''signature'')
     = Some ''c5d2460186f7233c927e7db2dcc703c0e500b653ca82273b7bfad8045d85a4705f6d8976f71c7656ec7ab88b098defb751b7401b5f6d8976f71c7656ec7ab88b1d''
   \<and> drop 64 (bufferFromHex ''c5d2460186f7233c927e7db2dcc703c0e500b653ca82273b7bfad8045d85a4705f6d8976f71c7656ec7ab88b098defb751b7401b5f6d8976f71c7656ec7ab88b1d'')
     = [29]
   \<and> signatureValidation exampleLenientRuntime exampleOddRecoveryDeProof exampleAddress
        ''c5d2460186f7233c927e7db2dcc703c0e500b653ca82273b7bfad8045d85a470'' = None
   \<and> validateDeProof exampleLenientRuntime exampleOddRecoveryRequest Map.empty = (None, exampleStore)"
proof -
  have s: "asString (propOf exampleOddRecoveryDeProof ''signature'')
     = Some ''c5d2460186f7233c927e7db2dcc703c0e500b653ca82273b7bfad8045d85a4705f6d8976f71c7656ec7ab88b098defb751b7401b5f6d8976f71c7656ec7ab88b1d''"
    by (simp add: exampleOddRecoveryDeProof_def objGet_def)
  have b: "drop 64 (bufferFromHex ''c5d2460186f7233c927e7db2dcc703c0e500b653ca82273b7bfad8045d85a4705f6d8976f71c7656ec7ab88b098defb751b7401b5f6d8976f71c7656ec7ab88b1d'')
     = [29]"
    by (simp add: hexDigitValue_def)
  have s1: "passesStage1 exampleOddRecoveryRequest
      (JObj [(''state'', JStr ''CA''), (''_deProof'', exampleOddRecoveryDeProof)])
      exampleOddRecoveryDeProof exampleAddress exampleSession"
    by (simp add: passesStage1_def exampleOddRecoveryRequest_def exampleOddRecoveryDeProof_def
          getProp_def objGet_def exampleAddress_def exampleSession_def)
  have f: "propOf exampleOddRecoveryDeProof ''timestamp'' = JStr ''2023-11-14T22:13:20.000Z''"
    "propOf exampleOddRecoveryDeProof ''nonce'' = JNum 0"
    by (simp_all add: exampleOddRecoveryDeProof_def objGet_def)
  have t: "timestampValidation exampleLenientRuntime (JStr ''2023-11-14T22:13:20.000Z'') = None"
    by (simp add: timestampValidation_def TIME_TOLERANCE_SECONDS_def exampleLenientRuntime_def)
  have n: "nonceValidation Map.empty exampleAddress exampleSession (JNum 0) = Inr 0"
    by (simp add: nonceValidation_Inr getExpectedNonce_empty)
  have "validateDeProof exampleLenientRuntime exampleOddRecoveryRequest Map.empty = (None, exampleStore)"
    by (simp add: validateDeProof_stage1 [OF s1] f t n example_odd_recovery_digest
          example_odd_recovery_signature exampleStore_def)
  with s b example_odd_recovery_signature show ?thesis by simp
qed

section \<open>The presence stage\<close>

text \<open>
  Claim C2, as the code has it. The presence stage answers \<open>MissingDeProof\<close> exactly when
  \<^verbatim>\<open>request.params._deProof\<close> can be read and is falsy: absent, \<^verbatim>\<open>null\<close>, \<^verbatim>\<open>false\<close>, \<open>0\<close> or
  the empty string. It does not look at the fields of a proof that is there: no request
  with a proof object is answered with \<open>MissingDeProof\<close>, whatever fields the proof has
  or lacks.
\<close>

theorem presence_stage_exact:
  "(fst (validateDeProof rt request st) = Some MissingDeProof)
   = (\<exists>params deProof. getProp request ''params'' = Inr params
        \<and> getProp params ''_deProof'' = Inr deProof \<and> deProof \<in> {JUndefined, JNull, JBool False, JNum 0, JStr []})"
proof -
  have f: "(\<not> truthy v) = (v \<in> {JUndefined, JNull, JBool False, JNum 0, JStr []})" for v
    by (cases v) auto
  show ?thesis
    unfolding f [symmetric]
    by (auto simp: validateDeProof_def nonceValidation_Inl
             split: sum.splits option.splits if_splits
             dest: timestampValidation_Some digestValidation_Inl signatureValidation_Some)
qed

lemma example_no_timestamp_accepted:
  "validateDeProof exampleRuntime exampleNoTimestampRequest Map.empty = (None, exampleStore)"
proof -
  let ?p = "JObj [(''signerAddress'', JStr ''0x71C7656EC7ab88b098defB751B7401B5f6d8976F''),
                  (''nonce'', JNum 0),
                  (''session'', JStr ''1b4e28ba-2fa1-11d2-883f-0016d3cca427''),
                  (''digest'', JStr ''c5d2460186f7233c927e7db2dcc703c0e500b653ca82273b7bfad8045d85a470''),
                  (''signature'', JStr ''c5d2460186f7233c927e7db2dcc703c0e500b653ca82273b7bfad8045d85a4705f6d8976f71c7656ec7ab88b098defb751b7401b5f6d8976f71c7656ec7ab88b1b'')]"
  have s1: "passesStage1 exampleNoTimestampRequest (JObj [(''state'', JStr ''CA''), (''_deProof'', ?p)]) ?p
              exampleAddress exampleSession"
    by (simp add: passesStage1_def exampleNoTimestampRequest_def getProp_def objGet_def
          exampleAddress_def exampleSession_def)
  have t: "timestampValidation exampleRuntime JUndefined = None"
    by (simp add: timestampValidation_def exampleRuntime_def)
  have n: "nonceValidation Map.empty exampleAddress exampleSession (JNum 0) = Inr 0"
    by (simp add: nonceValidation_Inr getExpectedNonce_empty)
  have d: "digestValidation exampleRuntime (JObj [(''state'', JStr ''CA''), (''_deProof'', ?p)]) ?p
           = Inr ''c5d2460186f7233c927e7db2dcc703c0e500b653ca82273b7bfad8045d85a470''"
    unfolding digestValidation_def dataToVerify_def
    by (simp add: Let_def js_defs example_defs)
  have g: "signatureValidation exampleRuntime ?p exampleAddress
             ''c5d2460186f7233c927e7db2dcc703c0e500b653ca82273b7bfad8045d85a470'' = None"
    by (simp add: signatureValidation_def Let_def js_defs example_defs)
  show ?thesis
    by (simp add: validateDeProof_stage1 [OF s1] objGet_def t n d g exampleStore_def)
qed

text \<open>
  Claim C2 as stated fails: a proof object without any field is answered with
  \<open>ValidationException\<close>, a proof that lacks only the nonce comes through the presence
  and timestamp stages and is answered with \<open>NonceMismatch\<close>, and a proof that lacks only
  the timestamp, with a digest and a signature made without it, comes through every
  stage and is accepted.
\<close>

theorem presence_stage_counterexample:
  "validateDeProof exampleRuntime exampleEmptyProofRequest Map.empty = (Some ValidationException, Map.empty)
   \<and> validateDeProof exampleRuntime exampleNoNonceRequest Map.empty = (Some NonceMismatch, Map.empty)
   \<and> validateDeProof exampleRuntime exampleNoTimestampRequest Map.empty = (None, exampleStore)"
proof -
  have "validateDeProof exampleRuntime exampleEmptyProofRequest Map.empty = (Some ValidationException, Map.empty)"
    by (simp add: validateDeProof_def exampleEmptyProofRequest_def getProp_def objGet_def)
  moreover have "validateDeProof exampleRuntime exampleNoNonceRequest Map.empty = (Some NonceMismatch, Map.empty)"
    by (simp add: validateDeProof_def exampleNoNonceRequest_def getProp_def objGet_def
          example_timestamp nonceValidation_def nonceComparison_def getExpectedNonce_empty)
  ultimately show ?thesis
    using example_no_timestamp_accepted by simp
qed

section \<open>The digest stage\<close>

lemma validator_sortObjectKeys_eq: "validator_sortObjectKeys v = sortObjectKeys v"
proof (induction v rule: sortObjectKeys.induct)
  case (7 kvs)
  have "foldl (\<lambda>acc key. objAssign acc key (validator_sortObjectKeys (objGet kvs key))) []
              (sort (ownPropertyKeys kvs))
      = foldl (\<lambda>acc key. objAssign acc key (sortObjectKeys (objGet kvs key))) []
              (sort (ownPropertyKeys kvs))"
    by (rule foldl_cong) (simp_all add: 7)
  then show ?case by simp
qed simp_all

lemma validator_canonicalStringify_eq: "validator_canonicalStringify v = canonicalStringify v"
  by (simp add: validator_canonicalStringify_def canonicalStringify_def validator_sortObjectKeys_eq)

lemma strip0x_add: "strip0x (''0x'' @ d) = d"
  by (simp add: strip0x_def startsWith_def)

text \<open>
  Claim C5, as the code has it. The digest stage removes \<^verbatim>\<open>_deProof\<close> from a copy of the
  parameters and serialises the object of the parameters, the nonce, the session and the
  timestamp with the canonical serialiser; this always gives a string. It takes one leading \<^verbatim>\<open>0x\<close>
  off the digest of that string and off the declared digest and compares the two
  strings as they are: the stage passes when they are equal character for character and
  answers \<open>DigestMismatch\<close> (code \<open>-32005\<close>) when they are not. So the prefix makes no
  difference, and letter case does. A declared digest that is not a string is answered
  with \<open>ValidationException\<close>.
\<close>

theorem digest_stage_exact:
  "\<exists>serializedData.
     canonicalStringify
       (JObj [(''params'', JObj (objDelete (spread params) ''_deProof'')),
              (''nonce'', propOf deProof ''nonce''), (''session'', propOf deProof ''session''),
              (''timestamp'', propOf deProof ''timestamp'')]) = Some serializedData
     \<and> (\<forall>digest. asString (propOf deProof ''digest'') = Some digest \<longrightarrow>
           (strip0x digest = strip0x (keccak256 rt serializedData) \<longrightarrow>
              digestValidation rt params deProof = Inr (strip0x digest))
           \<and> (strip0x digest \<noteq> strip0x (keccak256 rt serializedData) \<longrightarrow>
              digestValidation rt params deProof = Inl DigestMismatch))
     \<and> (asString (propOf deProof ''digest'') = None \<longrightarrow>
           digestValidation rt params deProof = Inl ValidationException)
     \<and> strip0x (''0x'' @ d) = d
     \<and> code DigestMismatch = - 32005"
proof -
  obtain serializedData where
    s: "canonicalStringify
         (JObj [(''params'', JObj (objDelete (spread params) ''_deProof'')),
                (''nonce'', propOf deProof ''nonce''), (''session'', propOf deProof ''session''),
                (''timestamp'', propOf deProof ''timestamp'')]) = Some serializedData"
    using canonicalStringify_JObj by blast
  then have v: "validator_canonicalStringify (dataToVerify params deProof) = Some serializedData"
    by (simp add: validator_canonicalStringify_eq dataToVerify_def)
  show ?thesis
  proof (intro exI [of _ serializedData] conjI allI impI)
    show "canonicalStringify
         (JObj [(''params'', JObj (objDelete (spread params) ''_deProof'')),
                (''nonce'', propOf deProof ''nonce''), (''session'', propOf deProof ''session''),
                (''timestamp'', propOf deProof ''timestamp'')]) = Some serializedData"
      by (rule s)
  qed (auto simp: digestValidation_def v Let_def strip0x_def startsWith_def)
qed

lemma example_serialized:
  "canonicalStringify
     (JObj [(''params'', JObj [(''state'', JStr ''CA'')]), (''nonce'', JNum 0),
            (''session'', JStr exampleSession), (''timestamp'', JStr ''2023-11-14T22:13:20.000Z'')])
     = Some x \<Longrightarrow>
   strip0x (keccak256 exampleRuntime x) = ''c5d2460186f7233c927e7db2dcc703c0e500b653ca82273b7bfad8045d85a470''"
  by (auto simp: js_defs example_defs)

lemma example_spread:
  "objDelete (spread (JObj [(''state'', JStr ''CA''), (''_deProof'', p)])) ''_deProof'' = [(''state'', JStr ''CA'')]"
  by (simp add: js_defs)

theorem digest_stage_exact_witness:
  "digestValidation exampleRuntime (JObj [(''state'', JStr ''CA''), (''_deProof'', exampleDeProof)]) exampleDeProof
     = Inr ''c5d2460186f7233c927e7db2dcc703c0e500b653ca82273b7bfad8045d85a470''
   \<and> digestValidation exampleRuntime (JObj [(''state'', JStr ''CA''), (''_deProof'', examplePrefixedDeProof)])
        examplePrefixedDeProof
     = Inr ''c5d2460186f7233c927e7db2dcc703c0e500b653ca82273b7bfad8045d85a470''
   \<and> digestValidation exampleRuntime (JObj [(''state'', JStr ''CA''), (''_deProof'', exampleUpperDeProof)])
        exampleUpperDeProof
     = Inl DigestMismatch"
proof -
  let ?d = "''c5d2460186f7233c927e7db2dcc703c0e500b653ca82273b7bfad8045d85a470''"
  have f: "propOf exampleDeProof ''nonce'' = JNum 0" "propOf exampleDeProof ''session'' = JStr exampleSession"
    "propOf exampleDeProof ''timestamp'' = JStr ''2023-11-14T22:13:20.000Z''"
    "asString (propOf exampleDeProof ''digest'') = Some ?d"
    by (simp_all add: exampleDeProof_def objGet_def exampleSession_def)
  have g: "propOf examplePrefixedDeProof ''nonce'' = JNum 0"
    "propOf examplePrefixedDeProof ''session'' = JStr exampleSession"
    "propOf examplePrefixedDeProof ''timestamp'' = JStr ''2023-11-14T22:13:20.000Z''"
    "asString (propOf examplePrefixedDeProof ''digest'') = Some (''0x'' @ ?d)"
    by (simp_all add: examplePrefixedDeProof_def objGet_def exampleSession_def)
  have h: "propOf exampleUpperDeProof ''nonce'' = JNum 0"
    "propOf exampleUpperDeProof ''session'' = JStr exampleSession"
    "propOf exampleUpperDeProof ''timestamp'' = JStr ''2023-11-14T22:13:20.000Z''"
    "asString (propOf exampleUpperDeProof ''digest'')
       = Some ''C5D2460186F7233C927E7DB2DCC703C0E500B653CA82273B7BFAD8045D85A470''"
    by (simp_all add: exampleUpperDeProof_def objGet_def exampleSession_def)
  have s: "strip0x ?d = ?d" "strip0x (''0x'' @ ?d) = ?d"
    "strip0x ''C5D2460186F7233C927E7DB2DCC703C0E500B653CA82273B7BFAD8045D85A470'' \<noteq> ?d"
    by (simp_all add: strip0x_def startsWith_def)
  have "digestValidation exampleRuntime
          (JObj [(''state'', JStr ''CA''), (''_deProof'', exampleDeProof)]) exampleDeProof = Inr ?d"
  proof -
    from digest_stage_exact [of "JObj [(''state'', JStr ''CA''), (''_deProof'', exampleDeProof)]"
        exampleDeProof exampleRuntime "[]"]
    obtain serializedData where
      c: "canonicalStringify
           (JObj [(''params'', JObj [(''state'', JStr ''CA'')]), (''nonce'', JNum 0),
                  (''session'', JStr exampleSession), (''timestamp'', JStr ''2023-11-14T22:13:20.000Z'')])
          = Some serializedData"
      and r: "\<forall>digest. asString (propOf exampleDeProof ''digest'') = Some digest \<longrightarrow>
           (strip0x digest = strip0x (keccak256 exampleRuntime serializedData) \<longrightarrow>
              digestValidation exampleRuntime
                (JObj [(''state'', JStr ''CA''), (''_deProof'', exampleDeProof)]) exampleDeProof = Inr (strip0x digest))
           \<and> (strip0x digest \<noteq> strip0x (keccak256 exampleRuntime serializedData) \<longrightarrow>
              digestValidation exampleRuntime
                (JObj [(''state'', JStr ''CA''), (''_deProof'', exampleDeProof)]) exampleDeProof = Inl DigestMismatch)"
      unfolding example_spread f by blast
    from example_serialized [OF c] r f(4) s show ?thesis by simp
  qed
  moreover have "digestValidation exampleRuntime
          (JObj [(''state'', JStr ''CA''), (''_deProof'', examplePrefixedDeProof)]) examplePrefixedDeProof = Inr ?d"
  proof -
    from digest_stage_exact [of "JObj [(''state'', JStr ''CA''), (''_deProof'', examplePrefixedDeProof)]"
        examplePrefixedDeProof exampleRuntime "[]"]
    obtain serializedData where
      c: "canonicalStringify
           (JObj [(''params'', JObj [(''state'', JStr ''CA'')]), (''nonce'', JNum 0),
                  (''session'', JStr exampleSession), (''timestamp'', JStr ''2023-11-14T22:13:20.000Z'')])
          = Some serializedData"
      and r: "\<forall>digest. asString (propOf examplePrefixedDeProof ''digest'') = Some digest \<longrightarrow>
           (strip0x digest = strip0x (keccak256 exampleRuntime serializedData) \<longrightarrow>
              digestValidation exampleRuntime
                (JObj [(''state'', JStr ''CA''), (''_deProof'', examplePrefixedDeProof)]) examplePrefixedDeProof = Inr (strip0x digest))
           \<and> (strip0x digest \<noteq> strip0x (keccak256 exampleRuntime serializedData) \<longrightarrow>
              digestValidation exampleRuntime
                (JObj [(''state'', JStr ''CA''), (''_deProof'', examplePrefixedDeProof)]) examplePrefixedDeProof = Inl DigestMismatch)"
      unfolding example_spread g by blast
    from example_serialized [OF c] r g(4) s show ?thesis by simp
  qed
  moreover have "digestValidation exampleRuntime
          (JObj [(''state'', JStr ''CA''), (''_deProof'', exampleUpperDeProof)]) exampleUpperDeProof = Inl DigestMismatch"
  proof -
    from digest_stage_exact [of "JObj [(''state'', JStr ''CA''), (''_deProof'', exampleUpperDeProof)]"
        exampleUpperDeProof exampleRuntime "[]"]
    obtain serializedData where
      c: "canonicalStringify
           (JObj [(''params'', JObj [(''state'', JStr ''CA'')]), (''nonce'', JNum 0),
                  (''session'', JStr exampleSession), (''timestamp'', JStr ''2023-11-14T22:13:20.000Z'')])
          = Some serializedData"
      and r: "\<forall>digest. asString (propOf exampleUpperDeProof ''digest'') = Some digest \<longrightarrow>
           (strip0x digest = strip0x (keccak256 exampleRuntime serializedData) \<longrightarrow>
              digestValidation exampleRuntime
                (JObj [(''state'', JStr ''CA''), (''_deProof'', exampleUpperDeProof)]) exampleUpperDeProof = Inr (strip0x digest))
           \<and> (strip0x digest \<noteq> strip0x (keccak256 exampleRuntime serializedData) \<longrightarrow>
              digestValidation exampleRuntime
                (JObj [(''state'', JStr ''CA''), (''_deProof'', exampleUpperDeProof)]) exampleUpperDeProof = Inl DigestMismatch)"
      unfolding example_spread h by blast
    from example_serialized [OF c] r h(4) s show ?thesis by simp
  qed
  ultimately show ?thesis by simp
qed

lemma example_dataToVerify_any:
  "dataToVerify (JObj [(''state'', JStr ''CA''), (''_deProof'', p)]) d
   = JObj [(''params'', JObj [(''state'', JStr ''CA'')]), (''nonce'', propOf d ''nonce''),
           (''session'', propOf d ''session''), (''timestamp'', propOf d ''timestamp'')]"
  unfolding dataToVerify_def example_spread by (simp add: Let_def)

lemma example_upper_digest:
  "digestValidation exampleRuntime (JObj [(''state'', JStr ''CA''), (''_deProof'', exampleUpperDeProof)])
     exampleUpperDeProof = Inl DigestMismatch"
  unfolding digestValidation_def example_dataToVerify_any
  by (simp add: Let_def js_defs example_defs exampleUpperDeProof_def)

text \<open>
  Claim C5 as stated fails on letter case: the upper-case form of the digest the
  validator computes denotes the same 32 bytes, and the stage answers \<open>DigestMismatch\<close>,
  while the lower-case form passes.
\<close>

theorem digest_case_counterexample:
  "bufferFromHex (strip0x ''C5D2460186F7233C927E7DB2DCC703C0E500B653CA82273B7BFAD8045D85A470'')
     = bufferFromHex (strip0x ''c5d2460186f7233c927e7db2dcc703c0e500b653ca82273b7bfad8045d85a470'')
   \<and> length (bufferFromHex ''C5D2460186F7233C927E7DB2DCC703C0E500B653CA82273B7BFAD8045D85A470'') = 32
   \<and> digestValidation exampleRuntime (JObj [(''state'', JStr ''CA''), (''_deProof'', exampleDeProof)])
        exampleDeProof = Inr ''c5d2460186f7233c927e7db2dcc703c0e500b653ca82273b7bfad8045d85a470''
   \<and> asString (propOf exampleUpperDeProof ''digest'')
        = Some ''C5D2460186F7233C927E7DB2DCC703C0E500B653CA82273B7BFAD8045D85A470''
   \<and> digestValidation exampleRuntime (JObj [(''state'', JStr ''CA''), (''_deProof'', exampleUpperDeProof)])
        exampleUpperDeProof = Inl DigestMismatch"
proof -
  have "bufferFromHex (strip0x ''C5D2460186F7233C927E7DB2DCC703C0E500B653CA82273B7BFAD8045D85A470'')
     = bufferFromHex (strip0x ''c5d2460186f7233c927e7db2dcc703c0e500b653ca82273b7bfad8045d85a470'')"
    by (simp add: strip0x_def startsWith_def hexDigitValue_def)
  moreover have "length (bufferFromHex ''C5D2460186F7233C927E7DB2DCC703C0E500B653CA82273B7BFAD8045D85A470'') = 32"
    by (simp add: hexDigitValue_def)
  moreover have "asString (propOf exampleUpperDeProof ''digest'')
        = Some ''C5D2460186F7233C927E7DB2DCC703C0E500B653CA82273B7BFAD8045D85A470''"
    by (simp add: exampleUpperDeProof_def objGet_def)
  ultimately show ?thesis
    using example_digest example_upper_digest by simp
qed

section \<open>A timestamp that is not a date\<close>

lemma example_bad_timestamp_generated:
  "map_sum id deProofObject
     (fst (generateDeProof (exampleRuntime \<lparr> toISOString := ''not-a-timestamp'' \<rparr>)
             (JObj [(''state'', JStr ''CA'')]) exampleWallet None Map.empty))
   = Inr exampleBadTimestampDeProof"
  by (simp add: generateDeProof_def store_defs Let_def js_defs example_defs
        exampleBadTimestampDeProof_def)

lemma example_bad_timestamp_digest:
  "digestValidation exampleRuntime
     (JObj [(''state'', JStr ''CA''), (''_deProof'', exampleBadTimestampDeProof)])
     exampleBadTimestampDeProof = Inr ''c5d2460186f7233c927e7db2dcc703c0e500b653ca82273b7bfad8045d85a470''"
  unfolding digestValidation_def example_dataToVerify_any
  by (simp add: Let_def js_defs example_defs exampleBadTimestampDeProof_def)

lemma example_bad_timestamp_signature:
  "signatureValidation exampleRuntime exampleBadTimestampDeProof exampleAddress
     ''c5d2460186f7233c927e7db2dcc703c0e500b653ca82273b7bfad8045d85a470'' = None"
  by (simp add: signatureValidation_def Let_def js_defs example_defs exampleBadTimestampDeProof_def)

lemma timestampValidation_invalid_date:
  "dateGetTime rt (JStr text) = None \<Longrightarrow> timestampValidation rt (JStr text) = None"
  by (simp add: timestampValidation_def)

text \<open>
  Claim C3 does not hold of the code. The date of a string that is not a timestamp reads
  as \<^verbatim>\<open>NaN\<close>; the stage computes with it, the comparison with the tolerance is false, and
  the request goes on to the nonce stage. Here a proof that was generated and signed over
  the timestamp text \<^verbatim>\<open>not-a-timestamp\<close> is accepted and the store is advanced; the
  \<open>TimestampInvalidFormat\<close> rejection is the answer for no timestamp that is a string
  (\<open>validateDeProof_string_timestamp\<close>).
\<close>

theorem unparseable_timestamp_accepted:
  "dateGetTime exampleRuntime (JStr ''not-a-timestamp'') = None
   \<and> propOf (deProofOf exampleBadTimestampRequest) ''timestamp'' = JStr ''not-a-timestamp''
   \<and> timestampValidation exampleRuntime (JStr ''not-a-timestamp'') = None
   \<and> validateDeProof exampleRuntime exampleBadTimestampRequest Map.empty = (None, exampleStore)"
proof -
  have d: "dateGetTime exampleRuntime (JStr ''not-a-timestamp'') = None"
    by (simp add: exampleRuntime_def)
  have s1: "passesStage1 exampleBadTimestampRequest
      (JObj [(''state'', JStr ''CA''), (''_deProof'', exampleBadTimestampDeProof)])
      exampleBadTimestampDeProof exampleAddress exampleSession"
    by (simp add: passesStage1_def exampleBadTimestampRequest_def exampleBadTimestampDeProof_def
          getProp_def objGet_def exampleAddress_def exampleSession_def)
  have f: "propOf exampleBadTimestampDeProof ''timestamp'' = JStr ''not-a-timestamp''"
    "propOf exampleBadTimestampDeProof ''nonce'' = JNum 0"
    by (simp_all add: exampleBadTimestampDeProof_def objGet_def)
  have p: "propOf (deProofOf exampleBadTimestampRequest) ''timestamp'' = JStr ''not-a-timestamp''"
    by (simp add: deProofOf_def exampleBadTimestampRequest_def exampleBadTimestampDeProof_def objGet_def)
  have "validateDeProof exampleRuntime exampleBadTimestampRequest Map.empty = (None, exampleStore)"
    by (simp add: validateDeProof_stage1 [OF s1] f timestampValidation_invalid_date [OF d]
          nonceValidation_def nonceComparison_def getExpectedNonce_empty example_bad_timestamp_digest
          example_bad_timestamp_signature exampleStore_def)
  with d p timestampValidation_invalid_date [OF d] show ?thesis by simp
qed

section \<open>Key order and the canonical serialiser\<close>

lemma distinct_ownPropertyKeys:
  "distinct (map fst kvs) \<Longrightarrow> distinct (ownPropertyKeys kvs)"
  by (auto simp: ownPropertyKeys_def)

lemma sorted_keys_eq:
  assumes "distinct (map fst kvs)" and "distinct (map fst kvs')"
    and "set (map fst kvs) = set (map fst kvs')"
  shows "sort (ownPropertyKeys kvs) = sort (ownPropertyKeys kvs')"
proof (rule sorted_distinct_set_unique)
  show "set (sort (ownPropertyKeys kvs)) = set (sort (ownPropertyKeys kvs'))"
    using assms(3) by (simp add: set_ownPropertyKeys)
qed (simp_all add: distinct_ownPropertyKeys assms)

lemma wellFormed_objGet:
  "wellFormed (JObj kvs) \<Longrightarrow> wellFormed (objGet kvs key)"
  by (auto simp: objGet_def split: option.splits dest!: map_of_SomeD)

lemma sortObjectKeys_structurallyEqual:
  "structurallyEqual v w \<Longrightarrow> wellFormed v \<Longrightarrow> wellFormed w \<Longrightarrow> sortObjectKeys v = sortObjectKeys w"
proof (induction v w rule: structurallyEqual.induct)
  case (1 xs ys)
  from "1.prems"(1) have len: "length xs = length ys"
    and eq: "\<And>i. i < length xs \<Longrightarrow> structurallyEqual (xs ! i) (ys ! i)"
    by simp_all
  have "map sortObjectKeys xs = map sortObjectKeys ys"
  proof (rule nth_equalityI)
    show "length (map sortObjectKeys xs) = length (map sortObjectKeys ys)"
      using len by simp
  next
    fix i
    assume "i < length (map sortObjectKeys xs)"
    then have i: "i < length xs" by simp
    with len have "xs ! i \<in> set xs" "ys ! i \<in> set ys" by simp_all
    with "1.prems" have "wellFormed (xs ! i)" "wellFormed (ys ! i)" by simp_all
    then have "sortObjectKeys (xs ! i) = sortObjectKeys (ys ! i)"
      using "1.IH" len i eq [OF i] by blast
    with i len show "map sortObjectKeys xs ! i = map sortObjectKeys ys ! i" by simp
  qed
  then show ?case by simp
next
  case (2 kvs kvs')
  have c: "set (map fst kvs) = set (map fst kvs')
      \<and> (\<forall>key \<in> set (map fst kvs). structurallyEqual (objGet kvs key) (objGet kvs' key))"
    using "2.prems"(1) unfolding structurallyEqual.simps(2) .
  then have keys: "set (map fst kvs) = set (map fst kvs')" by blast
  from c have eq: "structurallyEqual (objGet kvs key) (objGet kvs' key)"
    if "key \<in> set (map fst kvs)" for key
    using that by blast
  from "2.prems" have d: "distinct (map fst kvs)" "distinct (map fst kvs')" by simp_all
  have s: "sort (ownPropertyKeys kvs) = sort (ownPropertyKeys kvs')"
    by (rule sorted_keys_eq [OF d keys])
  have "foldl (\<lambda>acc key. objAssign acc key (sortObjectKeys (objGet kvs key))) [] (sort (ownPropertyKeys kvs))
      = foldl (\<lambda>acc key. objAssign acc key (sortObjectKeys (objGet kvs' key))) [] (sort (ownPropertyKeys kvs'))"
  proof (rule foldl_cong [OF refl s])
    fix acc key
    assume "key \<in> set (sort (ownPropertyKeys kvs))"
    then have k: "key \<in> set (map fst kvs)"
      by (simp add: set_ownPropertyKeys)
    have "sortObjectKeys (objGet kvs key) = sortObjectKeys (objGet kvs' key)"
      using "2.IH" keys k eq [OF k] "2.prems"(2,3) wellFormed_objGet by blast
    then show "objAssign acc key (sortObjectKeys (objGet kvs key))
             = objAssign acc key (sortObjectKeys (objGet kvs' key))" by simp
  qed
  then show ?case by simp
qed simp_all

lemma structurallyEqual_refl: "structurallyEqual v v"
  by (induction v rule: sortObjectKeys.induct) (simp_all add: set_ownPropertyKeys)

lemma structurallyEqual_reorder:
  assumes "distinct (map fst kvs)" and "distinct (map fst kvs')" and "set kvs = set kvs'"
  shows "structurallyEqual (JObj kvs) (JObj kvs')"
proof -
  from assms have "map_of kvs = map_of kvs'"
    by (simp add: map_of_inject_set)
  then have "objGet kvs key = objGet kvs' key" for key
    by (simp add: objGet_def)
  then show ?thesis
    using assms(3) by (simp add: structurallyEqual_refl)
qed

lemma example_trees:
  "wellFormed exampleTree" "wellFormed exampleReorderedTree"
  "structurallyEqual exampleTree exampleReorderedTree"
  "exampleTree \<noteq> exampleReorderedTree"
  by (auto simp: exampleTree_def exampleReorderedTree_def objGet_def less_Suc_eq numeral_2_eq_2)

text \<open>
  Claim C4. For two well-formed values that are structurally equal, whatever the order
  in which the keys of their objects were created, \<^verbatim>\<open>canonicalStringify\<close> of the generator
  returns the same string, and so does the copy of it inside the validator; hence the
  digest of the canonical string is the same for both. In particular an object and any
  object with the same properties in another order are structurally equal.
\<close>

theorem canonicalStringify_key_order:
  "wellFormed v \<Longrightarrow> wellFormed w \<Longrightarrow> structurallyEqual v w \<Longrightarrow>
     canonicalStringify v = canonicalStringify w
     \<and> validator_canonicalStringify v = validator_canonicalStringify w
     \<and> map_option (keccak256 rt) (canonicalStringify v) = map_option (keccak256 rt) (canonicalStringify w)
     \<and> map_option (keccak256 rt) (validator_canonicalStringify v)
         = map_option (keccak256 rt) (validator_canonicalStringify w)
     \<and> (distinct (map fst kvs) \<and> distinct (map fst kvs') \<and> set kvs = set kvs' \<longrightarrow>
          structurallyEqual (JObj kvs) (JObj kvs'))"
proof -
  assume "wellFormed v" "wellFormed w" "structurallyEqual v w"
  then have "sortObjectKeys v = sortObjectKeys w"
    by (simp add: sortObjectKeys_structurallyEqual)
  then have "canonicalStringify v = canonicalStringify w"
    by (simp add: canonicalStringify_def)
  moreover have "distinct (map fst kvs) \<and> distinct (map fst kvs') \<and> set kvs = set kvs' \<longrightarrow>
          structurallyEqual (JObj kvs) (JObj kvs')"
    using structurallyEqual_reorder by blast
  ultimately show ?thesis
    by (simp add: validator_canonicalStringify_eq del: structurallyEqual.simps)
qed

theorem canonicalStringify_key_order_witness:
  "wellFormed exampleTree \<and> wellFormed exampleReorderedTree
   \<and> structurallyEqual exampleTree exampleReorderedTree
   \<and> exampleTree \<noteq> exampleReorderedTree
   \<and> canonicalStringify exampleTree = canonicalStringify exampleReorderedTree
   \<and> map_option (keccak256 exampleRuntime) (validator_canonicalStringify exampleTree)
       = map_option (keccak256 exampleRuntime) (validator_canonicalStringify exampleReorderedTree)"
  using canonicalStringify_key_order [OF example_trees(1,2,3), of exampleRuntime "[]" "[]"] example_trees
  by simp

lemma example_tree_canonical:
  "canonicalStringify exampleTree = canonicalStringify (JObj [(''a'', JObj [(''x'', JArr [JNull, JBool True]), (''y'', JStr ''q'')]), (''b'', JNum 1)])"
  "sortObjectKeys exampleTree = exampleReorderedTree"
  by (simp_all add: exampleTree_def exampleReorderedTree_def js_defs)

end
